theory Spec2Isabelle
  imports Complex_Main "HOL-Library.Char_ord" "HOL-Library.List_Lexorder" "HOL-Library.Option_ord"
begin

section \<open>Strings\<close>

text \<open>
  Text is a list of bytes (UTF-8). \<open>toLowerCase\<close> folds the letters A to Z and leaves
  every other byte alone, which is \<^verbatim>\<open>String.prototype.toLowerCase\<close> on ASCII text. It is
  applied to the English messages of the eligibility evaluator only, which are ASCII; the
  intake labels of a program are lowered by the runtime's own function (see
  \<open>timeline_runtime\<close> below). Every caller-facing message of the source is a bilingual pair; the Arabic half is carried
  along unread by the code and is left out of the records below.
\<close>

definition lower_char :: "char \<Rightarrow> char" where
  "lower_char c =
     (case map_of (zip ''ABCDEFGHIJKLMNOPQRSTUVWXYZ'' ''abcdefghijklmnopqrstuvwxyz'') c of
        Some d \<Rightarrow> d
      | None \<Rightarrow> c)"

definition toLowerCase :: "string \<Rightarrow> string" where
  "toLowerCase s = map lower_char s"

primrec startsWith :: "string \<Rightarrow> string \<Rightarrow> bool" where
  "startsWith s [] = True"
| "startsWith s (c # cs) = (case s of [] \<Rightarrow> False | d # ds \<Rightarrow> d = c \<and> startsWith ds cs)"

text \<open>\<^verbatim>\<open>s.includes(t)\<close>: \<open>t\<close> occurs in \<open>s\<close> as a contiguous run.\<close>

primrec includes_str :: "string \<Rightarrow> string \<Rightarrow> bool" where
  "includes_str [] t = (t = [])"
| "includes_str (c # cs) t = (startsWith (c # cs) t \<or> includes_str cs t)"

text \<open>
  A stable sort, largest key first: what \<^verbatim>\<open>ORDER BY k DESC\<close> and
  \<^verbatim>\<open>xs.sort((a, b) => k(b) - k(a))\<close> give when rows with equal keys keep their order.
\<close>

definition sort_desc_key :: "('a \<Rightarrow> 'k::linorder) \<Rightarrow> 'a list \<Rightarrow> 'a list" where
  "sort_desc_key f xs = rev (sort_key f (rev xs))"

text \<open>SQLite has no boolean: a flag is stored as 1 or 0.\<close>

definition flag :: "bool \<Rightarrow> int" where
  "flag b = (if b then 1 else 0)"

definition COALESCE :: "'a option \<Rightarrow> 'a \<Rightarrow> 'a" where
  "COALESCE x d = (case x of Some v \<Rightarrow> v | None \<Rightarrow> d)"

section \<open>The catalog\<close>

datatype EducationLevel = cur_high_school | cur_bachelor | cur_master | cur_phd

datatype DegreeLevel = deg_bachelor | deg_master | deg_phd | deg_associate

datatype RuleType =
    gpa_minimum | exam_score | language_proficiency | portfolio_required
  | interview_required | work_experience | other

fun rule_type_name :: "RuleType \<Rightarrow> string" where
  "rule_type_name gpa_minimum = ''gpa_minimum''"
| "rule_type_name exam_score = ''exam_score''"
| "rule_type_name language_proficiency = ''language_proficiency''"
| "rule_type_name portfolio_required = ''portfolio_required''"
| "rule_type_name interview_required = ''interview_required''"
| "rule_type_name work_experience = ''work_experience''"
| "rule_type_name other = ''other''"

text \<open>
  The tables of \<^verbatim>\<open>migrate.ts\<close>, with the columns the engine reads. A nullable column is
  an \<open>option\<close>; an INTEGER column is an \<open>int\<close>, flags included, since the schema puts no
  CHECK on them. The \<^verbatim>\<open>intakes\<close> column holds a JSON array of labels and is modelled by the
  list it decodes to.
\<close>

record university_row =
  u_id :: string

record program_row =
  p_id :: string
  p_university_id :: string
  p_degree_level :: DegreeLevel
  p_intakes :: "string list"

record requirement_row =
  r_id :: string
  r_program_id :: "string option"
  r_university_id :: string
  r_rule_type :: RuleType
  r_rule_value :: string
  r_human_text_en :: string
  r_required_flag :: int

record document_template_row =
  dt_doc_key :: string
  dt_label_en :: string
  dt_translation_required_default :: int
  dt_notarization_required_default :: int
  dt_estimated_days_to_obtain :: "int option"

record program_document_rule_row =
  pdr_program_id :: string
  pdr_doc_key :: string
  pdr_required_flag :: "int option"
  pdr_translation_required :: "int option"
  pdr_notarization_required :: "int option"

record database =
  universities :: "university_row list"
  programs :: "program_row list"
  requirements :: "requirement_row list"
  document_templates :: "document_template_row list"
  program_document_rules :: "program_document_rule_row list"

section \<open>ProgramRepository\<close>

record RequirementOutput =
  req_id :: string
  rule_type :: RuleType
  rule_value :: string
  text_en :: string
  required :: bool

record DocumentOutput =
  doc_key :: string
  label_en :: string
  doc_required :: bool
  translation_required :: bool
  notarization_required :: bool
  estimated_days :: "int option"

record ProgramDetailOutput =
  detail_id :: string
  degree_level :: DegreeLevel
  intakes :: "string list"
  detail_requirements :: "RequirementOutput list"
  documents :: "DocumentOutput list"

text \<open>
  \<^verbatim>\<open>SELECT university_id FROM programs WHERE id = ?\<close> as a scalar subquery: the first
  matching row, or NULL.
\<close>

definition university_of :: "database \<Rightarrow> string \<Rightarrow> string option" where
  "university_of db programId =
     (case filter (\<lambda>p. p_id p = programId) (programs db) of
        [] \<Rightarrow> None
      | p # _ \<Rightarrow> Some (p_university_id p))"

definition requirement_selected :: "database \<Rightarrow> string \<Rightarrow> requirement_row \<Rightarrow> bool" where
  "requirement_selected db programId r =
     (r_program_id r = Some programId
      \<or> (r_program_id r = None \<and> university_of db programId = Some (r_university_id r)))"

definition mapRequirement :: "requirement_row \<Rightarrow> RequirementOutput" where
  "mapRequirement r =
     \<lparr> req_id = r_id r, rule_type = r_rule_type r, rule_value = r_rule_value r,
       text_en = r_human_text_en r, required = (r_required_flag r = 1) \<rparr>"

text \<open>\<^verbatim>\<open>ORDER BY required_flag DESC, rule_type\<close>; rows that tie keep the table's order.\<close>

definition getRequirements :: "database \<Rightarrow> string \<Rightarrow> RequirementOutput list" where
  "getRequirements db programId =
     map mapRequirement
       (sort_desc_key r_required_flag
          (sort_key (\<lambda>r. rule_type_name (r_rule_type r))
             (filter (requirement_selected db programId) (requirements db))))"

definition resolveDocument ::
  "program_document_rule_row \<Rightarrow> document_template_row \<Rightarrow> DocumentOutput" where
  "resolveDocument pdr dt =
     \<lparr> doc_key = dt_doc_key dt, label_en = dt_label_en dt,
       doc_required = (COALESCE (pdr_required_flag pdr) 1 = 1),
       translation_required =
         (COALESCE (pdr_translation_required pdr) (dt_translation_required_default dt) = 1),
       notarization_required =
         (COALESCE (pdr_notarization_required pdr) (dt_notarization_required_default dt) = 1),
       estimated_days = dt_estimated_days_to_obtain dt \<rparr>"

text \<open>
  The join of \<^verbatim>\<open>getDocuments\<close>: every override row of the program with the template of
  the same key. NULL sorts below every integer, so \<open>None\<close> is the least flag.
\<close>

definition joined_documents ::
  "database \<Rightarrow> string \<Rightarrow> (program_document_rule_row \<times> document_template_row) list" where
  "joined_documents db programId =
     concat (map (\<lambda>pdr. map (\<lambda>dt. (pdr, dt))
                           (filter (\<lambda>dt. dt_doc_key dt = pdr_doc_key pdr) (document_templates db)))
                 (filter (\<lambda>pdr. pdr_program_id pdr = programId) (program_document_rules db)))"

definition getDocuments :: "database \<Rightarrow> string \<Rightarrow> DocumentOutput list" where
  "getDocuments db programId =
     map (\<lambda>(pdr, dt). resolveDocument pdr dt)
       (sort_desc_key (\<lambda>(pdr, dt). pdr_required_flag pdr)
          (sort_key (\<lambda>(pdr, dt). dt_label_en dt) (joined_documents db programId)))"

text \<open>
  \<^verbatim>\<open>getProgramDetail\<close>: the program row joined with its university; no row, no detail.
\<close>

definition getProgramDetail :: "database \<Rightarrow> string \<Rightarrow> ProgramDetailOutput option" where
  "getProgramDetail db programId =
     (case filter (\<lambda>p. p_id p = programId
                        \<and> list_ex (\<lambda>u. u_id u = p_university_id p) (universities db))
                  (programs db) of
        [] \<Rightarrow> None
      | row # _ \<Rightarrow>
          Some \<lparr> detail_id = p_id row, degree_level = p_degree_level row,
                 intakes = p_intakes row,
                 detail_requirements = getRequirements db programId,
                 documents = getDocuments db programId \<rparr>)"

section \<open>Tool results\<close>

datatype error_code =
    PROGRAM_NOT_FOUND | CHECKLIST_ERROR | TIMELINE_ERROR | ELIGIBILITY_ERROR | SEARCH_ERROR

record profile_levels =
  nationality :: string
  current_education_level :: EducationLevel
  desired_degree_level :: DegreeLevel

section \<open>build_document_checklist\<close>

datatype priority = prio_required | prio_recommended

record ChecklistItemOutput =
  item_doc_key :: string
  item_label_en :: string
  item_required :: bool
  item_translation_required :: bool
  item_notarization_required :: bool
  item_priority :: priority
  item_estimated_days :: "int option"

record DocumentChecklistOutput =
  items :: "ChecklistItemOutput list"
  unknowns :: "string list"
  checklist_assumptions :: "string list"

text \<open>The two \<^verbatim>\<open>continue\<close> tests of the loop over the program's documents.\<close>

definition skipped :: "EducationLevel \<Rightarrow> DocumentOutput \<Rightarrow> bool" where
  "skipped cur doc =
     ((includes_str (doc_key doc) ''bachelor'' \<and> cur = cur_high_school)
      \<or> (includes_str (doc_key doc) ''master'' \<and> cur \<notin> {cur_master, cur_phd}))"

definition checklistItem :: "DocumentOutput \<Rightarrow> ChecklistItemOutput" where
  "checklistItem doc =
     \<lparr> item_doc_key = doc_key doc, item_label_en = label_en doc,
       item_required = doc_required doc,
       item_translation_required = translation_required doc,
       item_notarization_required = notarization_required doc,
       item_priority = (if doc_required doc then prio_required else prio_recommended),
       item_estimated_days = estimated_days doc \<rparr>"

definition days_or_zero :: "int option \<Rightarrow> int" where
  "days_or_zero d = (case d of None \<Rightarrow> 0 | Some n \<Rightarrow> n)"

definition priority_rank :: "ChecklistItemOutput \<Rightarrow> nat" where
  "priority_rank i = (if item_priority i = prio_required then 0 else 1)"

text \<open>
  The comparator of \<^verbatim>\<open>items.sort\<close> orders by priority, then by days; the sort is stable,
  so it is a stable sort by days followed by a stable sort by priority.
\<close>

definition sortItems :: "ChecklistItemOutput list \<Rightarrow> ChecklistItemOutput list" where
  "sortItems xs = sort_key priority_rank (sort_key (\<lambda>i. days_or_zero (item_estimated_days i)) xs)"

definition buildDocumentChecklist ::
  "database \<Rightarrow> profile_levels \<Rightarrow> string \<Rightarrow> error_code + DocumentChecklistOutput" where
  "buildDocumentChecklist db profile program_id =
     (case getProgramDetail db program_id of
        None \<Rightarrow> Inl PROGRAM_NOT_FOUND
      | Some programDetail \<Rightarrow>
          (let kept = filter (\<lambda>doc. \<not> skipped (current_education_level profile) doc)
                             (documents programDetail)
           in Inr \<lparr> items = sortItems (map checklistItem kept),
                     unknowns =
                       (if documents programDetail = []
                        then [''Document requirements not available for this program'']
                        else []),
                     checklist_assumptions =
                       map (\<lambda>doc. label_en doc
                                    @ '' requires both translation and notarization based on default rules'')
                           (filter (\<lambda>doc. translation_required doc \<and> notarization_required doc)
                                   kept) \<rparr>))"

section \<open>build_timeline\<close>

definition DEFAULT_TASK_DURATIONS :: "(string \<times> int) list" where
  "DEFAULT_TASK_DURATIONS =
     [(''high_school_diploma'', 7), (''high_school_transcript'', 5), (''passport_copy'', 1),
      (''personal_photo'', 1), (''english_proficiency'', 14), (''turkish_proficiency'', 14),
      (''bachelor_diploma'', 7), (''bachelor_transcript'', 5), (''cv_resume'', 3),
      (''motivation_letter'', 5), (''recommendation_letters'', 14), (''master_diploma'', 7),
      (''master_transcript'', 5), (''research_proposal'', 21), (''portfolio'', 21),
      (''health_certificate'', 7), (''translation'', 5), (''notarization'', 3),
      (''submission'', 1)]"

text \<open>
  \<^verbatim>\<open>DEFAULT_TASK_DURATIONS\<close> is a plain object, so \<^verbatim>\<open>DEFAULT_TASK_DURATIONS[key]\<close>
  also finds what the object inherits: at the name of a member of \<^verbatim>\<open>Object.prototype\<close>
  the lookup answers a function (or the prototype itself), which is truthy and not a number.
\<close>

definition OBJECT_PROTOTYPE :: "string list" where
  "OBJECT_PROTOTYPE =
     [''constructor'', ''__defineGetter__'', ''__defineSetter__'', ''hasOwnProperty'',
      ''__lookupGetter__'', ''__lookupSetter__'', ''isPrototypeOf'', ''propertyIsEnumerable'',
      ''toString'', ''valueOf'', ''__proto__'', ''toLocaleString'']"

text \<open>
  What \<^verbatim>\<open>estimated_days\<close> of a task holds: a number of days, or a value that is not a
  number (the inherited function, or the text that \<^verbatim>\<open>+=\<close> makes of it). Such a value is
  truthy, arithmetic on it gives NaN, and every comparison with it is false.
\<close>

datatype duration = Days int | NotANumber

fun days :: "duration \<Rightarrow> int" where
  "days (Days d) = d"
| "days NotANumber = 0"

fun plusDays :: "duration \<Rightarrow> int \<Rightarrow> duration" where
  "plusDays (Days d) n = Days (d + n)"
| "plusDays NotANumber n = NotANumber"

definition tableDays :: "string \<Rightarrow> duration" where
  "tableDays key =
     (case map_of DEFAULT_TASK_DURATIONS key of
        Some d \<Rightarrow> Days d
      | None \<Rightarrow> if key \<in> set OBJECT_PROTOTYPE then NotANumber else Days 7)"

text \<open>
  \<^verbatim>\<open>item.estimated_days || DEFAULT_TASK_DURATIONS[item.doc_key] || 7\<close>: \<open>null\<close> and
  \<open>0\<close> are falsy; every duration of the table is truthy.
\<close>

definition baseDays :: "ChecklistItemOutput \<Rightarrow> duration" where
  "baseDays item =
     (case item_estimated_days item of
        None \<Rightarrow> tableDays (item_doc_key item)
      | Some n \<Rightarrow> if n = 0 then tableDays (item_doc_key item) else Days n)"

record task =
  task_doc_key :: string
  task_label_en :: string
  task_estimated_days :: duration
  task_required :: bool

definition totalDays :: "ChecklistItemOutput \<Rightarrow> duration" where
  "totalDays item =
     plusDays
       (plusDays (baseDays item) (if item_translation_required item then 5 else 0))
       (if item_notarization_required item then 3 else 0)"

definition taskOf :: "ChecklistItemOutput \<Rightarrow> task" where
  "taskOf item =
     \<lparr> task_doc_key = item_doc_key item, task_label_en = item_label_en item,
       task_estimated_days = totalDays item,
       task_required = (item_priority item = prio_required) \<rparr>"

text \<open>
  Two functions of the JavaScript runtime that the planner calls are not code of this
  repository, and the planner is modelled over a runtime that supplies them:
  \<^item> \<open>lowerCase\<close> is \<^verbatim>\<open>String.prototype.toLowerCase\<close>, which folds the capitals of every
    script, on the UTF-8 text of a string;
  \<^item> \<open>sortUnordered\<close> is the order \<^verbatim>\<open>Array.prototype.sort\<close> leaves two or more tasks
    in when some duration is not a number, so that the comparator
    \<^verbatim>\<open>b.estimated_days - a.estimated_days\<close> answers NaN; no order is assumed of it.
  The theorems about the planner hold for every runtime; the examples run on
  \<open>plain_runtime\<close> below.
\<close>

record timeline_runtime =
  lowerCase :: "string \<Rightarrow> string"
  sortUnordered :: "task list \<Rightarrow> task list"

text \<open>
  \<^verbatim>\<open>tasks.sort((a, b) => b.estimated_days - a.estimated_days)\<close>: on numbers the sort is
  stable and puts the longest first; a single task stays where it is.
\<close>

definition sortTasks :: "timeline_runtime \<Rightarrow> task list \<Rightarrow> task list" where
  "sortTasks rt ts =
     (if list_all (\<lambda>t. task_estimated_days t \<noteq> NotANumber) ts \<or> length ts \<le> 1
      then sort_desc_key (\<lambda>t. days (task_estimated_days t)) ts
      else sortUnordered rt ts)"

text \<open>
  \<^verbatim>\<open>task.estimated_days >= maxDuration * 0.7\<close>, which is false as soon as a side is
  not a number. Durations are integers and the threshold is compared exactly, as
  \<open>7 * m \<le> 10 * d\<close>; the rounding of the double-precision product is left aside. The
  two agree on the durations of a sorted list when the longest is below \<open>2 ^ 49\<close>: for a
  longest duration that is not negative the rounded product stays within a tenth of the
  exact one, and below a negative longest duration both comparisons are false.
\<close>

definition maxDuration :: "task list \<Rightarrow> duration" where
  "maxDuration ts = (case ts of [] \<Rightarrow> Days 0 | t # _ \<Rightarrow> task_estimated_days t)"

fun reaches70 :: "duration \<Rightarrow> duration \<Rightarrow> bool" where
  "reaches70 (Days d) (Days m) = (7 * m \<le> 10 * d)"
| "reaches70 _ _ = False"

definition criticalPath :: "task list \<Rightarrow> string list" where
  "criticalPath ts =
     map task_doc_key (filter (\<lambda>t. reaches70 (task_estimated_days t) (maxDuration ts)) ts)"

text \<open>
  The test of \<^verbatim>\<open>find\<close>: one lowered text includes the other.
\<close>

definition fuzzy :: "timeline_runtime \<Rightarrow> string \<Rightarrow> string \<Rightarrow> bool" where
  "fuzzy rt target i =
     (includes_str (lowerCase rt i) (lowerCase rt target)
      \<or> includes_str (lowerCase rt target) (lowerCase rt i))"

text \<open>
  The intake block: the label and \<^verbatim>\<open>intakeDateKnown\<close>. An absent target and the empty
  string are both falsy, and so is an empty label that \<^verbatim>\<open>find\<close> returns.
\<close>

definition resolveIntake ::
  "timeline_runtime \<Rightarrow> string option \<Rightarrow> string list \<Rightarrow> string \<times> bool" where
  "resolveIntake rt intake_target labels =
     (let supplied = (case intake_target of None \<Rightarrow> [] | Some t \<Rightarrow> t);
          initial = (if supplied = [] then ''September'' else supplied)
      in case labels of
           [] \<Rightarrow> (initial, False)
         | first # _ \<Rightarrow>
             if supplied = [] then (first, True)
             else (case find (fuzzy rt supplied) labels of
                     None \<Rightarrow> (initial, False)
                   | Some matchingIntake \<Rightarrow>
                       if matchingIntake = [] then (initial, False)
                       else (matchingIntake, True)))"

record TimelineTask =
  tt_doc_key :: string
  task_en :: string
  is_critical_path :: bool
  tt_estimated_days :: duration

record TimelineWeek =
  week_number :: nat
  start_date :: int
  end_date :: int
  tasks :: "TimelineTask list"

definition startTask :: "bool \<Rightarrow> task \<Rightarrow> TimelineTask" where
  "startTask crit t =
     \<lparr> tt_doc_key = task_doc_key t, task_en = ''Start obtaining '' @ task_label_en t,
       is_critical_path = crit, tt_estimated_days = task_estimated_days t \<rparr>"

definition followUpTask :: "task \<Rightarrow> TimelineTask" where
  "followUpTask t =
     \<lparr> tt_doc_key = task_doc_key t, task_en = ''Follow up on '' @ task_label_en t,
       is_critical_path = True, tt_estimated_days = task_estimated_days t \<rparr>"

definition completeTask :: "task \<Rightarrow> TimelineTask" where
  "completeTask t =
     \<lparr> tt_doc_key = task_doc_key t, task_en = ''Complete '' @ task_label_en t,
       is_critical_path = False, tt_estimated_days = task_estimated_days t \<rparr>"

definition weekTasks :: "task list \<Rightarrow> nat \<Rightarrow> string list \<Rightarrow> nat \<Rightarrow> TimelineTask list" where
  "weekTasks ts totalWeeks criticalPathItems weekNum =
     (let criticalTasks = filter (\<lambda>t. task_doc_key t \<in> set criticalPathItems \<and> task_required t) ts;
          requiredTasks = filter (\<lambda>t. task_doc_key t \<notin> set criticalPathItems \<and> task_required t) ts
      in if weekNum \<le> 2 then map (startTask True) (take 2 criticalTasks)
         else if weekNum \<le> 4 then
           map followUpTask (take 1 (drop 2 criticalTasks))
           @ map (startTask False) (take 2 requiredTasks)
         else if weekNum \<le> 6 then
           map completeTask (drop 2 requiredTasks)
           @ [\<lparr> tt_doc_key = ''translation_notarization'',
                 task_en = ''Submit documents for translation and notarization'',
                 is_critical_path = True, tt_estimated_days = Days 8 \<rparr>]
         else
           [\<lparr> tt_doc_key = ''final_review'', task_en = ''Final review of all documents'',
               is_critical_path = False, tt_estimated_days = Days 2 \<rparr>]
           @ (if weekNum = totalWeeks
              then [\<lparr> tt_doc_key = ''submission'', task_en = ''Submit application'',
                        is_critical_path = True, tt_estimated_days = Days 1 \<rparr>]
              else []))"

text \<open>
  Dates are day numbers; \<open>today\<close> is the day of the call. Week \<open>n\<close> starts
  \<open>7 * (n - 1)\<close> days later and ends six days after its start.
\<close>

definition generateWeeklySchedule ::
  "int \<Rightarrow> task list \<Rightarrow> nat \<Rightarrow> string list \<Rightarrow> TimelineWeek list" where
  "generateWeeklySchedule today ts totalWeeks criticalPathItems =
     map (\<lambda>weekNum.
            \<lparr> week_number = weekNum,
              start_date = today + (int weekNum - 1) * 7,
              end_date = today + (int weekNum - 1) * 7 + 6,
              tasks = weekTasks ts totalWeeks criticalPathItems weekNum \<rparr>)
         [1 ..< Suc totalWeeks]"

record BuildTimelineInput =
  tl_profile :: profile_levels
  tl_program_id :: string
  intake_target :: "string option"

record TimelineOutput =
  weeks :: "TimelineWeek list"
  critical_path_items :: "string list"
  target_intake :: string
  assumptions :: "string list"

definition buildTimeline ::
  "timeline_runtime \<Rightarrow> int \<Rightarrow> database \<Rightarrow> BuildTimelineInput
     \<Rightarrow> error_code + TimelineOutput" where
  "buildTimeline rt today db input =
     (case buildDocumentChecklist db (tl_profile input) (tl_program_id input) of
        Inl _ \<Rightarrow> Inl CHECKLIST_ERROR
      | Inr checklist \<Rightarrow>
          (case getProgramDetail db (tl_program_id input) of
             None \<Rightarrow> Inl PROGRAM_NOT_FOUND
           | Some programDetail \<Rightarrow>
               (let ts = sortTasks rt (map taskOf (items checklist));
                    criticalPathItems = criticalPath ts;
                    (targetIntake, intakeDateKnown) =
                      resolveIntake rt (intake_target input) (intakes programDetail)
                in Inr \<lparr> weeks =
                            generateWeeklySchedule today ts (if intakeDateKnown then 8 else 8)
                              criticalPathItems,
                          critical_path_items = criticalPathItems,
                          target_intake = targetIntake,
                          assumptions =
                            (if intakes programDetail = []
                             then [''Intake dates not available - using generic 8-week timeline'']
                             else [])
                            @ (if intakeDateKnown then []
                               else [''Timeline is based on an 8-week preparation period''])
                            @ (if list_ex (\<lambda>t. task_estimated_days t = Days 0) ts
                               then [''Some task durations are estimated based on typical processing times'']
                               else []) \<rparr>)))"

section \<open>Numbers, JSON values and the runtime\<close>

text \<open>
  A JavaScript number: not-a-number, the two infinities, or a finite value, which is
  modelled by its exact rational value (rounding to binary64 is not modelled).
  \<open>num_ge\<close> is \<^verbatim>\<open>>=\<close> on numbers: false whenever a side is NaN.
\<close>

datatype jsnum = NaN | NegInf | Fin rat | PosInf

fun num_ge :: "jsnum \<Rightarrow> jsnum \<Rightarrow> bool" where
  "num_ge NaN _ = False"
| "num_ge _ NaN = False"
| "num_ge PosInf _ = True"
| "num_ge _ NegInf = True"
| "num_ge (Fin a) (Fin b) = (b \<le> a)"
| "num_ge (Fin a) PosInf = False"
| "num_ge NegInf (Fin b) = False"
| "num_ge NegInf PosInf = False"

text \<open>Strictly below: \<^verbatim>\<open><\<close> on numbers, again false on NaN.\<close>

fun num_lt :: "jsnum \<Rightarrow> jsnum \<Rightarrow> bool" where
  "num_lt NaN _ = False"
| "num_lt _ NaN = False"
| "num_lt PosInf _ = False"
| "num_lt _ NegInf = False"
| "num_lt (Fin a) (Fin b) = (a < b)"
| "num_lt (Fin a) PosInf = True"
| "num_lt NegInf (Fin b) = True"
| "num_lt NegInf PosInf = True"

datatype json =
    JNull | JBool bool | JNum jsnum | JStr string | JArr "json list"
  | JObj "(string \<times> json) list"

text \<open>
  \<^verbatim>\<open>v.name\<close> on a decoded value other than \<open>null\<close>: an object answers from its own
  members (each key listed once), anything else answers \<open>undefined\<close>, here \<open>None\<close>.
\<close>

fun getProp :: "json \<Rightarrow> string \<Rightarrow> json option" where
  "getProp (JObj members) name = map_of members name"
| "getProp _ name = None"

fun truthy :: "json option \<Rightarrow> bool" where
  "truthy None = False"
| "truthy (Some JNull) = False"
| "truthy (Some (JBool b)) = b"
| "truthy (Some (JNum n)) = (n \<noteq> NaN \<and> n \<noteq> Fin 0)"
| "truthy (Some (JStr s)) = (s \<noteq> [])"
| "truthy (Some (JArr _)) = True"
| "truthy (Some (JObj _)) = True"

text \<open>
  The functions of the JavaScript runtime that the evaluator calls are not code of this
  repository. The evaluator is modelled over a runtime that supplies them:
  \<^item> \<open>parseFloat\<close>;
  \<^item> \<open>JSON_parse\<close>, with \<open>None\<close> for a thrown \<^verbatim>\<open>SyntaxError\<close>;
  \<^item> \<open>ToNumber\<close>, the conversion that \<^verbatim>\<open>>=\<close> applies to a decoded value, with
    \<open>None\<close> for a thrown \<^verbatim>\<open>TypeError\<close>;
  \<^item> \<open>NumberToString\<close>, the text of a number inside a template literal.
  Every theorem about the evaluator holds for every runtime.
\<close>

record runtime =
  parseFloat :: "string \<Rightarrow> jsnum"
  JSON_parse :: "string \<Rightarrow> json option"
  ToNumber :: "json \<Rightarrow> jsnum option"
  NumberToString :: "jsnum \<Rightarrow> string"

section \<open>build_eligibility_snapshot\<close>

datatype english_test = ielts | toefl

record english_score_input =
  es_type :: english_test
  es_score :: jsnum

record eligibility_profile = profile_levels +
  gpa :: "jsnum option"
  english_score :: "english_score_input option"
  turkish_score :: "string option"
  has_portfolio :: "bool option"
  work_experience_years :: "jsnum option"

datatype EligibilityStatus = likely_eligible | needs_review | unlikely

record EligibilityReason =
  reason_rule_type :: RuleType
  passed :: bool
  reason_en :: string
  data_driven :: bool

record EligibilitySnapshotOutput =
  status :: EligibilityStatus
  reasons :: "EligibilityReason list"
  missing_info :: "string list"
  missing_fields :: "string list"
  snapshot_assumptions :: "string list"
  disclaimer :: string

definition DISCLAIMER_EN :: string where
  "DISCLAIMER_EN =
     ''This assessment is based on available data and is not a final admission decision. ''
     @ ''Please verify with the university directly.''"

text \<open>
  \<^verbatim>\<open>checkEducationLevel\<close>: whether the prerequisite passes, and its English reason. Every
  current level has an index in \<^verbatim>\<open>levelOrder\<close>, so a bachelor or associate program always
  passes.
\<close>

fun checkEducationLevel :: "EducationLevel \<Rightarrow> DegreeLevel \<Rightarrow> bool \<times> string" where
  "checkEducationLevel current deg_bachelor = (True, ''Education level is appropriate'')"
| "checkEducationLevel current deg_associate = (True, ''Education level is appropriate'')"
| "checkEducationLevel current deg_master =
     (if current = cur_bachelor \<or> current = cur_master \<or> current = cur_phd
      then (True, ''You have the required bachelor degree'')
      else (False, ''Master programs require a bachelor degree''))"
| "checkEducationLevel current deg_phd =
     (if current = cur_master \<or> current = cur_phd
      then (True, ''You have the required master degree'')
      else (False, ''PhD programs require a master degree''))"

text \<open>The three arrays that \<^verbatim>\<open>evaluateRequirement\<close> appends to.\<close>

record collected =
  missingInfo :: "string list"
  missingFields :: "string list"
  assumptions_acc :: "string list"

definition missing :: "string \<Rightarrow> string \<Rightarrow> collected \<Rightarrow> collected" where
  "missing info field ns =
     ns\<lparr> missingInfo := missingInfo ns @ [info], missingFields := missingFields ns @ [field] \<rparr>"

definition assume_note :: "string \<Rightarrow> collected \<Rightarrow> collected" where
  "assume_note msg ns = ns\<lparr> assumptions_acc := assumptions_acc ns @ [msg] \<rparr>"

definition reason :: "RuleType \<Rightarrow> bool \<Rightarrow> string \<Rightarrow> EligibilityReason" where
  "reason kind ok msg =
     \<lparr> reason_rule_type = kind, passed = ok, reason_en = msg, data_driven = True \<rparr>"

definition levelOrder :: "string list" where
  "levelOrder = [''A1'', ''A2'', ''B1'', ''B2'', ''C1'', ''C2'']"

text \<open>\<^verbatim>\<open>Array.prototype.indexOf\<close>: the first position, or \<open>-1\<close>.\<close>

fun indexOf :: "string list \<Rightarrow> string \<Rightarrow> int" where
  "indexOf [] x = - 1"
| "indexOf (y # ys) x =
     (if y = x then 0 else (let i = indexOf ys x in if i < 0 then - 1 else i + 1))"

text \<open>
  \<open>indexOf\<close> compares with \<^verbatim>\<open>===\<close>, so only a text can be found. A level that fails
  the comparison has an index of its own, hence is a text: the template literal of the
  failing branch is only ever filled with one.
\<close>

fun indexOfValue :: "string list \<Rightarrow> json \<Rightarrow> int" where
  "indexOfValue xs (JStr s) = indexOf xs s"
| "indexOfValue xs _ = - 1"

fun levelText :: "json \<Rightarrow> string" where
  "levelText (JStr s) = s"
| "levelText _ = []"

text \<open>
  The English branch inside the \<^verbatim>\<open>try\<close>: \<open>None\<close> when the comparison throws, which the
  \<^verbatim>\<open>catch\<close> turns into an assumption.
\<close>

definition englishPassed :: "runtime \<Rightarrow> json \<Rightarrow> english_score_input \<Rightarrow> bool option" where
  "englishPassed rt langReq score =
     (if es_type score = ielts \<and> truthy (getProp langReq ''ielts'') then
        map_option (num_ge (es_score score)) (ToNumber rt (the (getProp langReq ''ielts'')))
      else if es_type score = toefl \<and> truthy (getProp langReq ''toefl'') then
        map_option (num_ge (es_score score)) (ToNumber rt (the (getProp langReq ''toefl'')))
      else Some False)"

definition unparsable :: "collected \<Rightarrow> EligibilityReason option \<times> collected" where
  "unparsable ns =
     (None, assume_note ''Could not parse language requirement - defaulting to needs review'' ns)"

text \<open>The reason objects that \<^verbatim>\<open>evaluateRequirement\<close> returns, one per scored kind.\<close>

definition gpaReason :: "runtime \<Rightarrow> jsnum \<Rightarrow> jsnum \<Rightarrow> EligibilityReason" where
  "gpaReason rt g requiredGpa =
     (let ok = num_ge g requiredGpa
      in reason gpa_minimum ok
           (if ok
            then ''Your GPA '' @ NumberToString rt g @ '' meets the minimum ''
                 @ NumberToString rt requiredGpa
            else ''Your GPA '' @ NumberToString rt g @ '' is below the required minimum ''
                 @ NumberToString rt requiredGpa))"

definition englishReason :: "bool \<Rightarrow> EligibilityReason" where
  "englishReason ok =
     reason language_proficiency ok
       (if ok then ''English score meets the requirements''
        else ''English score does not meet the minimum requirement'')"

definition turkishReason :: "json \<Rightarrow> string \<Rightarrow> EligibilityReason" where
  "turkishReason requiredLevel level =
     (let ok = (indexOfValue levelOrder requiredLevel \<le> indexOf levelOrder level)
      in reason language_proficiency ok
           (if ok then ''Turkish level meets the requirements''
            else ''Turkish level does not meet the minimum requirement (''
                 @ levelText requiredLevel @ '')''))"

definition portfolioReason :: "bool \<Rightarrow> EligibilityReason" where
  "portfolioReason p =
     reason portfolio_required p
       (if p then ''You have a portfolio'' else ''Program requires a portfolio submission'')"

definition evaluateLanguage ::
  "runtime \<Rightarrow> RequirementOutput \<Rightarrow> eligibility_profile \<Rightarrow> collected
     \<Rightarrow> EligibilityReason option \<times> collected" where
  "evaluateLanguage rt req profile ns =
     (case JSON_parse rt (rule_value req) of
        None \<Rightarrow> unparsable ns
      | Some JNull \<Rightarrow> unparsable ns
      | Some langReq \<Rightarrow>
          if getProp langReq ''type'' = Some (JStr ''english'') then
            (case english_score profile of
               None \<Rightarrow> (None, missing ''English proficiency score'' ''english_score'' ns)
             | Some score \<Rightarrow>
                 (case englishPassed rt langReq score of
                    None \<Rightarrow> unparsable ns
                  | Some ok \<Rightarrow> (Some (englishReason ok), ns)))
          else if getProp langReq ''type'' = Some (JStr ''turkish'') then
            (case turkish_score profile of
               None \<Rightarrow> (None, missing ''Turkish proficiency score'' ''turkish_score'' ns)
             | Some level \<Rightarrow>
                 (Some (turkishReason
                          (if truthy (getProp langReq ''tomer'') then the (getProp langReq ''tomer'')
                           else JStr ''B2'')
                          level), ns))
          else (None, ns))"

definition evaluateRequirement ::
  "runtime \<Rightarrow> RequirementOutput \<Rightarrow> eligibility_profile \<Rightarrow> collected
     \<Rightarrow> EligibilityReason option \<times> collected" where
  "evaluateRequirement rt req profile ns =
     (case rule_type req of
        gpa_minimum \<Rightarrow>
          (case gpa profile of
             None \<Rightarrow> (None, missing ''GPA'' ''gpa'' ns)
           | Some g \<Rightarrow> (Some (gpaReason rt g (parseFloat rt (rule_value req))), ns))
      | language_proficiency \<Rightarrow> evaluateLanguage rt req profile ns
      | portfolio_required \<Rightarrow>
          (case has_portfolio profile of
             None \<Rightarrow> (None, missing ''Portfolio status'' ''has_portfolio'' ns)
           | Some p \<Rightarrow> (Some (portfolioReason p), ns))
      | work_experience \<Rightarrow>
          (case work_experience_years profile of
             None \<Rightarrow> (None, missing ''Work experience'' ''work_experience_years'' ns)
           | Some _ \<Rightarrow> (None, ns))
      | _ \<Rightarrow>
          (None, assume_note (''Unknown requirement type: '' @ rule_type_name (rule_type req)) ns))"

text \<open>The loop over the requirements: the reasons pushed, and the three arrays.\<close>

fun evaluateAll ::
  "runtime \<Rightarrow> RequirementOutput list \<Rightarrow> eligibility_profile \<Rightarrow> collected
     \<Rightarrow> EligibilityReason list \<times> collected" where
  "evaluateAll rt [] profile ns = ([], ns)"
| "evaluateAll rt (req # reqs) profile ns =
     (case evaluateRequirement rt req profile ns of
        (evaluation, ns') \<Rightarrow>
          (case evaluateAll rt reqs profile ns' of
             (rs, ns'') \<Rightarrow>
               ((case evaluation of None \<Rightarrow> [] | Some r \<Rightarrow> [r]) @ rs, ns'')))"

definition majorFailure :: "EligibilityReason \<Rightarrow> bool" where
  "majorFailure r =
     (reason_rule_type r = gpa_minimum
      \<or> includes_str (toLowerCase (reason_en r)) ''education level''
      \<or> includes_str (toLowerCase (reason_en r)) ''bachelor degree''
      \<or> includes_str (toLowerCase (reason_en r)) ''master degree''
      \<or> includes_str (toLowerCase (reason_en r)) ''require a bachelor''
      \<or> includes_str (toLowerCase (reason_en r)) ''require a master'')"

definition determineStatus :: "EligibilityReason list \<Rightarrow> string list \<Rightarrow> EligibilityStatus" where
  "determineStatus rs missingInfo' =
     (let failedRequired = filter (\<lambda>r. \<not> passed r \<and> data_driven r) rs
      in if failedRequired \<noteq> [] \<and> filter majorFailure failedRequired \<noteq> [] then unlikely
         else if missingInfo' \<noteq> [] then needs_review
         else if list_all passed rs then likely_eligible
         else needs_review)"

record BuildEligibilitySnapshotInput =
  el_profile :: eligibility_profile
  el_program_id :: string

definition educationReason :: "EducationLevel \<Rightarrow> DegreeLevel \<Rightarrow> EligibilityReason" where
  "educationReason current desired =
     (case checkEducationLevel current desired of
        (ok, msg) \<Rightarrow>
          reason other ok
            (if ok then ''Education level is appropriate for the program'' else msg))"

definition buildEligibilitySnapshot ::
  "runtime \<Rightarrow> database \<Rightarrow> BuildEligibilitySnapshotInput
     \<Rightarrow> error_code + EligibilitySnapshotOutput" where
  "buildEligibilitySnapshot rt db input =
     (case getProgramDetail db (el_program_id input) of
        None \<Rightarrow> Inl PROGRAM_NOT_FOUND
      | Some programDetail \<Rightarrow>
          (case evaluateAll rt (detail_requirements programDetail) (el_profile input)
                  \<lparr> missingInfo = [], missingFields = [], assumptions_acc = [] \<rparr> of
             (evaluations, ns) \<Rightarrow>
               (let rs = educationReason (current_education_level (el_profile input))
                                         (degree_level programDetail)
                         # evaluations
                in Inr \<lparr> status = determineStatus rs (missingInfo ns),
                          reasons = rs,
                          missing_info = missingInfo ns,
                          missing_fields = missingFields ns,
                          snapshot_assumptions = assumptions_acc ns,
                          disclaimer = DISCLAIMER_EN \<rparr>)))"

text \<open>
  What one rule contributes: its reason, which does not depend on what was collected
  before it, and the entries it appends to the three arrays.
\<close>

definition no_notes :: collected where
  "no_notes = \<lparr> missingInfo = [], missingFields = [], assumptions_acc = [] \<rparr>"

definition outcome ::
  "runtime \<Rightarrow> eligibility_profile \<Rightarrow> RequirementOutput \<Rightarrow> EligibilityReason option" where
  "outcome rt profile req = fst (evaluateRequirement rt req profile no_notes)"

definition missed :: "runtime \<Rightarrow> eligibility_profile \<Rightarrow> RequirementOutput \<Rightarrow> string list" where
  "missed rt profile req = missingFields (snd (evaluateRequirement rt req profile no_notes))"

definition missedInfo :: "runtime \<Rightarrow> eligibility_profile \<Rightarrow> RequirementOutput \<Rightarrow> string list" where
  "missedInfo rt profile req = missingInfo (snd (evaluateRequirement rt req profile no_notes))"

definition noted :: "runtime \<Rightarrow> eligibility_profile \<Rightarrow> RequirementOutput \<Rightarrow> string list" where
  "noted rt profile req = assumptions_acc (snd (evaluateRequirement rt req profile no_notes))"

text \<open>The language a language rule asks for, when its payload decodes to an object that names one.\<close>

definition languageOf :: "runtime \<Rightarrow> RequirementOutput \<Rightarrow> string option" where
  "languageOf rt req =
     (case JSON_parse rt (rule_value req) of
        None \<Rightarrow> None
      | Some v \<Rightarrow> (case getProp v ''type'' of Some (JStr l) \<Rightarrow> Some l | _ \<Rightarrow> None))"

section \<open>search_programs: keyword expansion\<close>

text \<open>
  Keywords are JavaScript strings with Turkish and Arabic letters, so here a string is the
  list of its UTF-16 code units; \<open>u\<close> embeds ASCII text.
\<close>

type_synonym ustring = "nat list"

definition u :: "string \<Rightarrow> ustring" where
  "u s = map of_char s"

definition KEYWORD_SYNONYMS :: "(ustring \<times> ustring list) list" where
  "KEYWORD_SYNONYMS =
     [
      (u ''computer engineering'',
        [u ''ce'',
         u ''ceng'',
         u ''comp eng'',
         u ''bilgisayar m'' @ [252] @ u ''hendisli'' @ [287] @ u ''i'',
         [1607, 1606, 1583, 1587, 1577] @ u '' '' @ [1575, 1604, 1581, 1575, 1587, 1608, 1576],
         [1607, 1606, 1583, 1587, 1577] @ u '' '' @ [1581, 1575, 1587, 1608, 1576]]),
      (u ''ce'',
        [u ''computer engineering'',
         u ''ceng'',
         u ''comp eng'',
         u ''bilgisayar m'' @ [252] @ u ''hendisli'' @ [287] @ u ''i'',
         [1607, 1606, 1583, 1587, 1577] @ u '' '' @ [1575, 1604, 1581, 1575, 1587, 1608, 1576]]),
      (u ''ceng'',
        [u ''computer engineering'',
         u ''ce'',
         u ''comp eng'',
         u ''bilgisayar m'' @ [252] @ u ''hendisli'' @ [287] @ u ''i'',
         [1607, 1606, 1583, 1587, 1577] @ u '' '' @ [1575, 1604, 1581, 1575, 1587, 1608, 1576]]),
      (u ''computer science'',
        [u ''cs'',
         u ''comp sci'',
         u ''bilgisayar bilimleri'',
         [1593, 1604, 1608, 1605] @ u '' '' @ [1575, 1604, 1581, 1575, 1587, 1608, 1576],
         [1593, 1604, 1608, 1605] @ u '' '' @ [1581, 1575, 1587, 1608, 1576]]),
      (u ''cs'',
        [u ''computer science'',
         u ''comp sci'',
         u ''bilgisayar bilimleri'',
         [1593, 1604, 1608, 1605] @ u '' '' @ [1575, 1604, 1581, 1575, 1587, 1608, 1576]]),
      (u ''software engineering'',
        [u ''se'',
         u ''soft eng'',
         u ''yaz'' @ [305] @ u ''l'' @ [305] @ u ''m m'' @ [252] @ u ''hendisli'' @ [287] @ u ''i'',
         [1607, 1606, 1583, 1587, 1577] @ u '' '' @ [1575, 1604, 1576, 1585, 1605, 1580, 1610, 1575, 1578]]),
      (u ''se'',
        [u ''software engineering'',
         u ''soft eng'',
         u ''yaz'' @ [305] @ u ''l'' @ [305] @ u ''m m'' @ [252] @ u ''hendisli'' @ [287] @ u ''i'',
         [1607, 1606, 1583, 1587, 1577] @ u '' '' @ [1575, 1604, 1576, 1585, 1605, 1580, 1610, 1575, 1578]]),
      (u ''electrical engineering'',
        [u ''ee'',
         u ''elec eng'',
         u ''elektrik m'' @ [252] @ u ''hendisli'' @ [287] @ u ''i'',
         [1575, 1604, 1607, 1606, 1583, 1587, 1577] @ u '' '' @ [1575, 1604, 1603, 1607, 1585, 1576, 1575, 1574, 1610, 1577],
         [1607, 1606, 1583, 1587, 1577] @ u '' '' @ [1603, 1607, 1585, 1576, 1575, 1574, 1610, 1577]]),
      (u ''ee'',
        [u ''electrical engineering'',
         u ''elec eng'',
         u ''elektrik m'' @ [252] @ u ''hendisli'' @ [287] @ u ''i'',
         [1575, 1604, 1607, 1606, 1583, 1587, 1577] @ u '' '' @ [1575, 1604, 1603, 1607, 1585, 1576, 1575, 1574, 1610, 1577]]),
      (u ''electronics'',
        [u ''electronic engineering'',
         u ''elektronik'',
         [1573, 1604, 1603, 1578, 1585, 1608, 1606, 1610, 1575, 1578]]),
      (u ''business administration'',
        [u ''ba'',
         u ''business'',
         u ''i'' @ [351] @ u ''letme'',
         [1573, 1583, 1575, 1585, 1577] @ u '' '' @ [1575, 1604, 1571, 1593, 1605, 1575, 1604],
         [1575, 1583, 1575, 1585, 1577] @ u '' '' @ [1575, 1593, 1605, 1575, 1604]]),
      (u ''mba'',
        [u ''master of business administration'',
         u ''business administration'',
         [1605, 1575, 1580, 1587, 1578, 1610, 1585] @ u '' '' @ [1573, 1583, 1575, 1585, 1577] @ u '' '' @ [1575, 1604, 1571, 1593, 1605, 1575, 1604]]),
      (u ''medicine'',
        [u ''md'',
         u ''t'' @ [305] @ u ''p'',
         [1575, 1604, 1591, 1576],
         [1591, 1576]]),
      (u ''medical'',
        [u ''medicine'',
         u ''t'' @ [305] @ u ''p'',
         [1591, 1576]]),
      (u ''architecture'',
        [u ''arch'',
         u ''mimarl'' @ [305] @ u ''k'',
         [1575, 1604, 1607, 1606, 1583, 1587, 1577] @ u '' '' @ [1575, 1604, 1605, 1593, 1605, 1575, 1585, 1610, 1577],
         [1593, 1605, 1575, 1585, 1577]]),
      (u ''law'',
        [u ''llb'',
         u ''hukuk'',
         [1575, 1604, 1602, 1575, 1606, 1608, 1606],
         [1602, 1575, 1606, 1608, 1606]]),
      (u ''psychology'',
        [u ''psych'',
         u ''psikoloji'',
         [1593, 1604, 1605] @ u '' '' @ [1575, 1604, 1606, 1601, 1587]]),
      (u ''nursing'',
        [u ''hem'' @ [351] @ u ''irelik'',
         [1575, 1604, 1578, 1605, 1585, 1610, 1590],
         [1578, 1605, 1585, 1610, 1590]]),
      (u ''engineering'',
        [u ''eng'',
         u ''m'' @ [252] @ u ''hendislik'',
         [1607, 1606, 1583, 1587, 1577]])]"

text \<open>
  \<^verbatim>\<open>\w\<close> is the ASCII letters, digits and the underscore; \<^verbatim>\<open>\s\<close> and
  \<^verbatim>\<open>trim\<close> share one set of blanks; the Arabic block is kept as well.
\<close>

definition word_unit :: "nat \<Rightarrow> bool" where
  "word_unit c = ((48 \<le> c \<and> c \<le> 57) \<or> (65 \<le> c \<and> c \<le> 90) \<or> c = 95 \<or> (97 \<le> c \<and> c \<le> 122))"

definition blank_unit :: "nat \<Rightarrow> bool" where
  "blank_unit c =
     (c \<in> {9, 10, 11, 12, 13, 32, 0xA0, 0x1680, 0x2028, 0x2029, 0x202F, 0x205F, 0x3000, 0xFEFF}
      \<or> (0x2000 \<le> c \<and> c \<le> 0x200A))"

definition kept :: "nat \<Rightarrow> bool" where
  "kept c = (word_unit c \<or> blank_unit c \<or> (0x600 \<le> c \<and> c \<le> 0x6FF))"

text \<open>
  \<^verbatim>\<open>toLowerCase\<close>, as far as \<^verbatim>\<open>normalizeKeyword\<close> can tell: A to Z are folded, the
  dotted capital I becomes \<open>i\<close> and a combining dot, the Kelvin sign becomes \<open>k\<close>. Every
  other cased code unit is outside the kept set before and after lowering, and is removed
  either way.
\<close>

definition lower_unit :: "nat \<Rightarrow> nat list" where
  "lower_unit c =
     (if 65 \<le> c \<and> c \<le> 90 then [c + 32]
      else if c = 0x130 then [0x69, 0x307]
      else if c = 0x212A then [0x6B]
      else [c])"

definition trim :: "ustring \<Rightarrow> ustring" where
  "trim s = rev (dropWhile blank_unit (rev (dropWhile blank_unit s)))"

definition normalizeKeyword :: "ustring \<Rightarrow> ustring" where
  "normalizeKeyword keyword = trim (filter kept (concat (map lower_unit keyword)))"

text \<open>\<^verbatim>\<open>Set.prototype.add\<close>, with the set as the list of its members in insertion order.\<close>

definition add :: "ustring \<Rightarrow> ustring list \<Rightarrow> ustring list" where
  "add x xs = (if x \<in> set xs then xs else xs @ [x])"

definition addAll :: "ustring list \<Rightarrow> ustring list \<Rightarrow> ustring list" where
  "addAll ys xs = foldl (\<lambda>acc y. add y acc) xs ys"

text \<open>
  \<^verbatim>\<open>KEYWORD_SYNONYMS[normalized]\<close> also finds what a plain object inherits. Of the members
  of \<^verbatim>\<open>Object.prototype\<close> only \<open>constructor\<close> and \<open>__proto__\<close> are spelled in kept
  lower-case units; both are truthy and have no \<^verbatim>\<open>slice\<close>, so the annotation line throws a
  \<^verbatim>\<open>TypeError\<close>, which \<^verbatim>\<open>searchPrograms\<close> reports as \<^verbatim>\<open>SEARCH_ERROR\<close>.
\<close>

datatype js_error = TypeError

definition inherited :: "ustring \<Rightarrow> bool" where
  "inherited n = (n = u ''constructor'' \<or> n = u ''__proto__'')"

fun join :: "ustring \<Rightarrow> ustring list \<Rightarrow> ustring" where
  "join sep [] = []"
| "join sep [x] = x"
| "join sep (x # y # ys) = x @ sep @ join sep (y # ys)"

definition annotation :: "ustring \<Rightarrow> ustring list \<Rightarrow> ustring" where
  "annotation keyword synonyms =
     [34] @ keyword @ [34, 32, 0x2192, 32, 91] @ join (u '', '') (take 3 synonyms)
     @ (if 3 < length synonyms then u ''...'' else []) @ [93]"

text \<open>The second loop of an iteration: every group that lists the keyword among its synonyms.\<close>

definition containing :: "ustring \<Rightarrow> ustring list \<Rightarrow> ustring list" where
  "containing normalized acc =
     foldl (\<lambda>acc (mainTerm, syns).
              if list_ex (\<lambda>s. normalizeKeyword s = normalized) syns
              then addAll (map normalizeKeyword syns) (add (normalizeKeyword mainTerm) acc)
              else acc)
           acc KEYWORD_SYNONYMS"

definition expandKeyword ::
  "ustring \<Rightarrow> ustring list \<times> ustring list \<Rightarrow> js_error + ustring list \<times> ustring list" where
  "expandKeyword keyword acc =
     (let normalized = normalizeKeyword keyword;
          expanded1 = add normalized (fst acc)
      in if inherited normalized then Inl TypeError
         else (case map_of KEYWORD_SYNONYMS normalized of
                 None \<Rightarrow> Inr (containing normalized expanded1, snd acc)
               | Some synonyms \<Rightarrow>
                   Inr (containing normalized (addAll (map normalizeKeyword synonyms) expanded1),
                        snd acc @ [annotation keyword synonyms])))"

fun expandLoop ::
  "ustring list \<Rightarrow> ustring list \<times> ustring list \<Rightarrow> js_error + ustring list \<times> ustring list" where
  "expandLoop [] acc = Inr acc"
| "expandLoop (keyword # keywords) acc =
     (case expandKeyword keyword acc of
        Inl e \<Rightarrow> Inl e
      | Inr acc' \<Rightarrow> expandLoop keywords acc')"

record expansion =
  expanded :: "ustring list"
  synonymsApplied :: "ustring list"

definition expandKeywords :: "ustring list \<Rightarrow> js_error + expansion" where
  "expandKeywords keywords =
     (case expandLoop keywords ([], []) of
        Inl e \<Rightarrow> Inl e
      | Inr acc \<Rightarrow> Inr \<lparr> expanded = fst acc, synonymsApplied = snd acc \<rparr>)"

text \<open>
  The synonym groups as the specification speaks of them: a declared term with its
  synonyms, normalised. Two terms are related when one group holds both; the closure of a
  set of terms is everything reachable from it through related terms.
\<close>

definition synonym_groups :: "ustring list list" where
  "synonym_groups = map (\<lambda>(mainTerm, syns). map normalizeKeyword (mainTerm # syns)) KEYWORD_SYNONYMS"

definition synonym_rel :: "(ustring \<times> ustring) set" where
  "synonym_rel = {(a, b). \<exists>g\<in>set synonym_groups. a \<in> set g \<and> b \<in> set g}"

definition synonym_closure :: "ustring set \<Rightarrow> ustring set" where
  "synonym_closure S = synonym_rel\<^sup>* `` S"

section \<open>A catalog to run the tools on\<close>

text \<open>The catalog of the timeline unit test: one university, one bachelor program, four documents.\<close>

definition fixture_db :: database where
  "fixture_db =
     \<lparr> universities = [\<lparr> u_id = ''test-uni'' \<rparr>],
       programs = [\<lparr> p_id = ''prog-bachelor'', p_university_id = ''test-uni'',
                    p_degree_level = deg_bachelor, p_intakes = [''September'', ''February''] \<rparr>],
       requirements = [],
       document_templates =
         [\<lparr> dt_doc_key = ''high_school_diploma'', dt_label_en = ''High School Diploma'',
             dt_translation_required_default = 1, dt_notarization_required_default = 1,
             dt_estimated_days_to_obtain = Some 7 \<rparr>,
          \<lparr> dt_doc_key = ''high_school_transcript'', dt_label_en = ''High School Transcript'',
             dt_translation_required_default = 1, dt_notarization_required_default = 1,
             dt_estimated_days_to_obtain = Some 5 \<rparr>,
          \<lparr> dt_doc_key = ''passport_copy'', dt_label_en = ''Passport Copy'',
             dt_translation_required_default = 0, dt_notarization_required_default = 0,
             dt_estimated_days_to_obtain = Some 1 \<rparr>,
          \<lparr> dt_doc_key = ''english_proficiency'', dt_label_en = ''English Proficiency Certificate'',
             dt_translation_required_default = 0, dt_notarization_required_default = 0,
             dt_estimated_days_to_obtain = Some 14 \<rparr>],
       program_document_rules =
         [\<lparr> pdr_program_id = ''prog-bachelor'', pdr_doc_key = ''high_school_diploma'',
             pdr_required_flag = Some 1, pdr_translation_required = None,
             pdr_notarization_required = None \<rparr>,
          \<lparr> pdr_program_id = ''prog-bachelor'', pdr_doc_key = ''high_school_transcript'',
             pdr_required_flag = Some 1, pdr_translation_required = None,
             pdr_notarization_required = None \<rparr>,
          \<lparr> pdr_program_id = ''prog-bachelor'', pdr_doc_key = ''passport_copy'',
             pdr_required_flag = Some 1, pdr_translation_required = None,
             pdr_notarization_required = None \<rparr>,
          \<lparr> pdr_program_id = ''prog-bachelor'', pdr_doc_key = ''english_proficiency'',
             pdr_required_flag = Some 1, pdr_translation_required = None,
             pdr_notarization_required = None \<rparr>] \<rparr>"

text \<open>
  The runtime of the examples. Their labels and targets are ASCII, where the fold of A to Z
  is the runtime's \<^verbatim>\<open>toLowerCase\<close>, and the sort is never left without an order.
\<close>

definition plain_runtime :: timeline_runtime where
  "plain_runtime = \<lparr> lowerCase = toLowerCase, sortUnordered = (\<lambda>ts. ts) \<rparr>"

definition fixture_input :: BuildTimelineInput where
  "fixture_input =
     \<lparr> tl_profile = \<lparr> nationality = ''Egyptian'', current_education_level = cur_high_school,
                      desired_degree_level = deg_bachelor \<rparr>,
       tl_program_id = ''prog-bachelor'', intake_target = None \<rparr>"

text \<open>The same program with one required document whose stored duration is negative.\<close>

definition negative_db :: database where
  "negative_db =
     \<lparr> universities = [\<lparr> u_id = ''test-uni'' \<rparr>],
       programs = [\<lparr> p_id = ''prog-bachelor'', p_university_id = ''test-uni'',
                    p_degree_level = deg_bachelor, p_intakes = [''September'', ''February''] \<rparr>],
       requirements = [],
       document_templates =
         [\<lparr> dt_doc_key = ''passport_copy'', dt_label_en = ''Passport Copy'',
             dt_translation_required_default = 0, dt_notarization_required_default = 0,
             dt_estimated_days_to_obtain = Some (- 20) \<rparr>],
       program_document_rules =
         [\<lparr> pdr_program_id = ''prog-bachelor'', pdr_doc_key = ''passport_copy'',
             pdr_required_flag = Some 1, pdr_translation_required = None,
             pdr_notarization_required = None \<rparr>] \<rparr>"

text \<open>
  The same program with one required document keyed \<open>constructor\<close>, with no stored
  duration.
\<close>

definition inherited_key_db :: database where
  "inherited_key_db =
     negative_db
       \<lparr> document_templates :=
           [\<lparr> dt_doc_key = ''constructor'', dt_label_en = ''Constructor'',
               dt_translation_required_default = 0, dt_notarization_required_default = 0,
               dt_estimated_days_to_obtain = None \<rparr>],
         program_document_rules :=
           [\<lparr> pdr_program_id = ''prog-bachelor'', pdr_doc_key = ''constructor'',
               pdr_required_flag = Some 1, pdr_translation_required = None,
               pdr_notarization_required = None \<rparr>] \<rparr>"

text \<open>
  A program whose rules override the templates: the diploma's translation default is
  switched off, the passport copy's is switched on and its required flag is absent, and the
  transcript inherits both defaults.
\<close>

definition override_db :: database where
  "override_db =
     \<lparr> universities = [\<lparr> u_id = ''test-uni'' \<rparr>],
       programs = [\<lparr> p_id = ''prog-bachelor'', p_university_id = ''test-uni'',
                    p_degree_level = deg_bachelor, p_intakes = [] \<rparr>],
       requirements = [],
       document_templates =
         [\<lparr> dt_doc_key = ''high_school_diploma'', dt_label_en = ''High School Diploma'',
             dt_translation_required_default = 1, dt_notarization_required_default = 1,
             dt_estimated_days_to_obtain = Some 7 \<rparr>,
          \<lparr> dt_doc_key = ''high_school_transcript'', dt_label_en = ''High School Transcript'',
             dt_translation_required_default = 1, dt_notarization_required_default = 0,
             dt_estimated_days_to_obtain = Some 5 \<rparr>,
          \<lparr> dt_doc_key = ''passport_copy'', dt_label_en = ''Passport Copy'',
             dt_translation_required_default = 0, dt_notarization_required_default = 0,
             dt_estimated_days_to_obtain = None \<rparr>],
       program_document_rules =
         [\<lparr> pdr_program_id = ''prog-bachelor'', pdr_doc_key = ''high_school_diploma'',
             pdr_required_flag = Some 1, pdr_translation_required = Some 0,
             pdr_notarization_required = None \<rparr>,
          \<lparr> pdr_program_id = ''prog-bachelor'', pdr_doc_key = ''high_school_transcript'',
             pdr_required_flag = Some 0, pdr_translation_required = None,
             pdr_notarization_required = None \<rparr>,
          \<lparr> pdr_program_id = ''prog-bachelor'', pdr_doc_key = ''passport_copy'',
             pdr_required_flag = None, pdr_translation_required = Some 1,
             pdr_notarization_required = Some 0 \<rparr>] \<rparr>"

definition passport_doc :: DocumentOutput where
  "passport_doc =
     \<lparr> doc_key = ''passport_copy'', label_en = ''Passport Copy'', doc_required = True,
       translation_required = True, notarization_required = False, estimated_days = None \<rparr>"

text \<open>A master program with a GPA floor of its own and a GPA floor of its university.\<close>

definition two_tier_db :: database where
  "two_tier_db =
     \<lparr> universities = [\<lparr> u_id = ''test-uni'' \<rparr>],
       programs = [\<lparr> p_id = ''prog-master'', p_university_id = ''test-uni'',
                    p_degree_level = deg_master, p_intakes = [''September''] \<rparr>],
       requirements =
         [\<lparr> r_id = ''req-program'', r_program_id = Some ''prog-master'',
             r_university_id = ''test-uni'', r_rule_type = gpa_minimum, r_rule_value = ''70'',
             r_human_text_en = ''Minimum GPA of 70'', r_required_flag = 1 \<rparr>,
          \<lparr> r_id = ''req-university'', r_program_id = None,
             r_university_id = ''test-uni'', r_rule_type = gpa_minimum, r_rule_value = ''60'',
             r_human_text_en = ''Minimum GPA of 60'', r_required_flag = 1 \<rparr>],
       document_templates = [],
       program_document_rules = [] \<rparr>"

section \<open>A runtime to run the evaluator on\<close>

text \<open>
  \<open>parseFloat\<close> on decimal text: blanks, a sign, \<open>Infinity\<close> or digits with an optional
  fraction and exponent; text that does not start with a number gives NaN.
\<close>

definition is_digit :: "char \<Rightarrow> bool" where
  "is_digit c = (c \<in> set ''0123456789'')"

definition digit_value :: "char \<Rightarrow> nat" where
  "digit_value c = (case map_of (zip ''0123456789'' [0 ..< 10]) c of Some d \<Rightarrow> d | None \<Rightarrow> 0)"

definition decimal :: "string \<Rightarrow> nat" where
  "decimal ds = foldl (\<lambda>a c. 10 * a + digit_value c) 0 ds"

definition is_blank :: "char \<Rightarrow> bool" where
  "is_blank c = (c \<in> {CHR '' '', CHR 0x09, CHR 0x0A, CHR 0x0B, CHR 0x0C, CHR 0x0D})"

definition unsigned :: "string \<Rightarrow> string" where
  "unsigned s = (case s of [] \<Rightarrow> [] | c # r \<Rightarrow> if c = CHR ''-'' \<or> c = CHR ''+'' then r else s)"

definition negative :: "string \<Rightarrow> bool" where
  "negative s = (case s of [] \<Rightarrow> False | c # r \<Rightarrow> c = CHR ''-'')"

definition exponent :: "string \<Rightarrow> int" where
  "exponent s =
     (case s of
        [] \<Rightarrow> 0
      | c # r \<Rightarrow>
          if c = CHR ''e'' \<or> c = CHR ''E'' then
            (let ds = takeWhile is_digit (unsigned r)
             in if negative r then - int (decimal ds) else int (decimal ds))
          else 0)"

definition scale :: "rat \<Rightarrow> int \<Rightarrow> rat" where
  "scale x e = (if 0 \<le> e then x * 10 ^ nat e else x / 10 ^ nat (- e))"

definition ref_parseFloat :: "string \<Rightarrow> jsnum" where
  "ref_parseFloat s =
     (let t = dropWhile is_blank s;
          body = unsigned t;
          ip = takeWhile is_digit body;
          r1 = dropWhile is_digit body;
          dotted = (case r1 of [] \<Rightarrow> False | c # r \<Rightarrow> c = CHR ''.'');
          fp = (if dotted then takeWhile is_digit (tl r1) else []);
          r2 = (if dotted then dropWhile is_digit (tl r1) else r1);
          magnitude = scale (of_nat (decimal ip) + of_nat (decimal fp) / 10 ^ length fp)
                            (exponent r2)
      in if startsWith body ''Infinity'' then (if negative t then NegInf else PosInf)
         else if ip = [] \<and> fp = [] then NaN
         else Fin (if negative t then - magnitude else magnitude))"

text \<open>
  The payloads of the examples: the language requirement of the eligibility unit test and a
  Turkish one decode to their objects; any other text stands for text that is not JSON.
\<close>

definition english_payload :: string where
  \<open>english_payload = ''{"type":"english","ielts":5.5,"toefl":70}''\<close>

definition turkish_payload :: string where
  \<open>turkish_payload = ''{"type":"turkish","tomer":"B2"}''\<close>

definition payload_parse :: "string \<Rightarrow> json option" where
  "payload_parse s =
     map_of
       [(english_payload,
           JObj [(''type'', JStr ''english''), (''ielts'', JNum (Fin (11 / 2))),
                 (''toefl'', JNum (Fin 70))]),
        (turkish_payload, JObj [(''type'', JStr ''turkish''), (''tomer'', JStr ''B2'')])]
       s"

text \<open>
  The conversion to a number of a decoded number, boolean or \<open>null\<close>; the examples
  compare with decoded numbers only, and any other value stands for NaN.
\<close>

fun number_of :: "json \<Rightarrow> jsnum option" where
  "number_of (JNum n) = Some n"
| "number_of (JBool b) = Some (Fin (if b then 1 else 0))"
| "number_of JNull = Some (Fin 0)"
| "number_of _ = Some NaN"

text \<open>The text of a number: exact on whole numbers, which is all the examples print.\<close>

fun digits_of :: "nat \<Rightarrow> nat \<Rightarrow> string" where
  "digits_of 0 n = []"
| "digits_of (Suc fuel) n =
     (if n < 10 then [''0123456789'' ! n]
      else digits_of fuel (n div 10) @ [''0123456789'' ! (n mod 10)])"

fun number_text :: "jsnum \<Rightarrow> string" where
  "number_text NaN = ''NaN''"
| "number_text PosInf = ''Infinity''"
| "number_text NegInf = ''-Infinity''"
| "number_text (Fin q) =
     (if q < 0 then ''-'' else [])
     @ digits_of (Suc (nat \<bar>\<lfloor>q\<rfloor>\<bar>)) (nat \<bar>\<lfloor>q\<rfloor>\<bar>)"

definition example_runtime :: runtime where
  "example_runtime =
     \<lparr> parseFloat = ref_parseFloat, JSON_parse = payload_parse, ToNumber = number_of,
       NumberToString = number_text \<rparr>"

text \<open>
  The catalog of the eligibility unit test: a bachelor program with a GPA floor of 60 and an
  English requirement, and a master program with a GPA floor of 2.5.
\<close>

definition eligibility_db :: database where
  "eligibility_db =
     \<lparr> universities = [\<lparr> u_id = ''test-uni'' \<rparr>],
       programs =
         [\<lparr> p_id = ''prog-bachelor'', p_university_id = ''test-uni'',
             p_degree_level = deg_bachelor, p_intakes = [''September'', ''February''] \<rparr>,
          \<lparr> p_id = ''prog-master'', p_university_id = ''test-uni'',
             p_degree_level = deg_master, p_intakes = [''September''] \<rparr>],
       requirements =
         [\<lparr> r_id = ''req-1'', r_program_id = Some ''prog-bachelor'',
             r_university_id = ''test-uni'', r_rule_type = gpa_minimum, r_rule_value = ''60'',
             r_human_text_en = ''Minimum GPA of 60%'', r_required_flag = 1 \<rparr>,
          \<lparr> r_id = ''req-2'', r_program_id = Some ''prog-bachelor'',
             r_university_id = ''test-uni'', r_rule_type = language_proficiency,
             r_rule_value = english_payload,
             r_human_text_en = ''English proficiency required'', r_required_flag = 1 \<rparr>,
          \<lparr> r_id = ''req-3'', r_program_id = Some ''prog-master'',
             r_university_id = ''test-uni'', r_rule_type = gpa_minimum, r_rule_value = ''2.5'',
             r_human_text_en = ''Minimum GPA of 2.5/4.0'', r_required_flag = 1 \<rparr>],
       document_templates = [],
       program_document_rules = [] \<rparr>"

text \<open>The same bachelor program with a GPA rule whose payload is not a number.\<close>

definition unparsable_db :: database where
  "unparsable_db =
     eligibility_db
       \<lparr> requirements :=
           [\<lparr> r_id = ''req-1'', r_program_id = Some ''prog-bachelor'',
               r_university_id = ''test-uni'', r_rule_type = gpa_minimum, r_rule_value = ''N/A'',
               r_human_text_en = ''Minimum GPA'', r_required_flag = 1 \<rparr>,
            \<lparr> r_id = ''req-2'', r_program_id = Some ''prog-bachelor'',
               r_university_id = ''test-uni'', r_rule_type = language_proficiency,
               r_rule_value = ''not json'',
               r_human_text_en = ''English proficiency required'', r_required_flag = 1 \<rparr>] \<rparr>"

definition student :: "jsnum option \<Rightarrow> english_score_input option \<Rightarrow> eligibility_profile" where
  "student g e =
     \<lparr> nationality = ''Egyptian'', current_education_level = cur_high_school,
       desired_degree_level = deg_bachelor, gpa = g, english_score = e,
       turkish_score = None, has_portfolio = None, work_experience_years = None \<rparr>"

definition ielts6 :: english_score_input where
  "ielts6 = \<lparr> es_type = ielts, es_score = Fin 6 \<rparr>"

section \<open>The plan always has eight weeks\<close>

lemma buildTimeline_Inr:
  assumes "buildTimeline rt today db input = Inr out"
  obtains checklist programDetail where
    "buildDocumentChecklist db (tl_profile input) (tl_program_id input) = Inr checklist"
    "getProgramDetail db (tl_program_id input) = Some programDetail"
    "weeks out = generateWeeklySchedule today (sortTasks rt (map taskOf (items checklist))) 8
                   (criticalPath (sortTasks rt (map taskOf (items checklist))))"
    "critical_path_items out = criticalPath (sortTasks rt (map taskOf (items checklist)))"
    "target_intake out = fst (resolveIntake rt (intake_target input) (intakes programDetail))"
    "assumptions out =
       (if intakes programDetail = []
        then [''Intake dates not available - using generic 8-week timeline''] else [])
       @ (if snd (resolveIntake rt (intake_target input) (intakes programDetail)) then []
          else [''Timeline is based on an 8-week preparation period''])
       @ (if list_ex (\<lambda>t. task_estimated_days t = Days 0) (sortTasks rt (map taskOf (items checklist)))
          then [''Some task durations are estimated based on typical processing times'']
          else [])"
  using assms
  by (auto simp: buildTimeline_def Let_def split: sum.splits option.splits prod.splits)

lemma upt_eight: "[1 ..< Suc 8] = [1, 2, 3, 4, 5, 6, 7, 8 :: nat]"
  by code_simp

lemma week_numbers:
  "map week_number (generateWeeklySchedule today ts 8 crit) = [1, 2, 3, 4, 5, 6, 7, 8]"
  unfolding generateWeeklySchedule_def upt_eight by simp

lemma last_week_tasks:
  "tasks (last (generateWeeklySchedule today ts 8 crit)) = weekTasks ts 8 crit 8"
  unfolding generateWeeklySchedule_def upt_eight by simp

text \<open>
  C10: every successful \<^verbatim>\<open>buildTimeline\<close> result has exactly eight weeks, numbered 1 to 8,
  whether or not the intake was resolved, and the task list of the last week contains the
  submission task.
\<close>

theorem buildTimeline_eight_weeks:
  assumes "buildTimeline rt today db input = Inr out"
  shows "map week_number (weeks out) = [1, 2, 3, 4, 5, 6, 7, 8]
         \<and> list_ex (\<lambda>t. tt_doc_key t = ''submission'') (tasks (last (weeks out)))"
proof -
  from assms obtain ts crit where w: "weeks out = generateWeeklySchedule today ts 8 crit"
    by (rule buildTimeline_Inr)
  have "list_ex (\<lambda>t. tt_doc_key t = ''submission'') (weekTasks ts 8 crit 8)"
    by (simp add: weekTasks_def)
  with w show ?thesis
    by (simp add: week_numbers last_week_tasks)
qed

theorem buildTimeline_eight_weeks_witness:
  "\<not> isl (buildTimeline plain_runtime 0 fixture_db fixture_input)
   \<and> map week_number (weeks (projr (buildTimeline plain_runtime 0 fixture_db fixture_input))) = [1, 2, 3, 4, 5, 6, 7, 8]
   \<and> list_ex (\<lambda>t. tt_doc_key t = ''submission'')
        (tasks (last (weeks (projr (buildTimeline plain_runtime 0 fixture_db fixture_input)))))"
proof -
  have r: "\<not> isl (buildTimeline plain_runtime 0 fixture_db fixture_input)"
    by code_simp
  then have "buildTimeline plain_runtime 0 fixture_db fixture_input
             = Inr (projr (buildTimeline plain_runtime 0 fixture_db fixture_input))"
    by (cases "buildTimeline plain_runtime 0 fixture_db fixture_input") simp_all
  from buildTimeline_eight_weeks [OF this] r show ?thesis
    by simp
qed

section \<open>The evaluator, rule by rule\<close>

lemma evaluateLanguage_fst:
  "fst (evaluateLanguage rt req profile ns) = fst (evaluateLanguage rt req profile ns')"
  by (simp add: evaluateLanguage_def unparsable_def Let_def split: option.splits json.splits)

lemma evaluateRequirement_fst:
  "fst (evaluateRequirement rt req profile ns) = outcome rt profile req"
  unfolding outcome_def
  using evaluateLanguage_fst [of rt req profile ns no_notes]
  by (simp add: evaluateRequirement_def Let_def split: RuleType.splits option.splits)

lemma evaluateAll_reasons:
  "set (fst (evaluateAll rt reqs profile ns)) = {r. \<exists>req\<in>set reqs. outcome rt profile req = Some r}"
proof (induction reqs arbitrary: ns)
  case Nil
  then show ?case by simp
next
  case (Cons req reqs)
  obtain e ns' where e: "evaluateRequirement rt req profile ns = (e, ns')"
    by (cases "evaluateRequirement rt req profile ns")
  then have o: "outcome rt profile req = e"
    using evaluateRequirement_fst [of rt req profile ns] by simp
  obtain rs ns'' where a: "evaluateAll rt reqs profile ns' = (rs, ns'')"
    by (cases "evaluateAll rt reqs profile ns'")
  from Cons.IH [of ns'] a have "set rs = {r. \<exists>req\<in>set reqs. outcome rt profile req = Some r}"
    by simp
  with e a o show ?case
    by (auto split: option.splits)
qed

lemma evaluateLanguage_notes:
  "missingFields (snd (evaluateLanguage rt req profile ns))
     = missingFields ns @ missingFields (snd (evaluateLanguage rt req profile no_notes))
   \<and> missingInfo (snd (evaluateLanguage rt req profile ns))
     = missingInfo ns @ missingInfo (snd (evaluateLanguage rt req profile no_notes))
   \<and> assumptions_acc (snd (evaluateLanguage rt req profile ns))
     = assumptions_acc ns @ assumptions_acc (snd (evaluateLanguage rt req profile no_notes))
   \<and> length (missingInfo (snd (evaluateLanguage rt req profile no_notes)))
     = length (missingFields (snd (evaluateLanguage rt req profile no_notes)))"
  by (simp add: evaluateLanguage_def unparsable_def missing_def assume_note_def no_notes_def Let_def
           split: option.splits json.splits)

lemma evaluateRequirement_notes:
  "missingFields (snd (evaluateRequirement rt req profile ns))
     = missingFields ns @ missed rt profile req
   \<and> missingInfo (snd (evaluateRequirement rt req profile ns))
     = missingInfo ns @ missedInfo rt profile req
   \<and> assumptions_acc (snd (evaluateRequirement rt req profile ns))
     = assumptions_acc ns @ noted rt profile req"
  unfolding missed_def noted_def missedInfo_def
  using evaluateLanguage_notes [of rt req profile ns]
  by (simp add: evaluateRequirement_def missing_def assume_note_def no_notes_def Let_def
           split: RuleType.splits option.splits)

lemma length_missedInfo: "length (missedInfo rt profile req) = length (missed rt profile req)"
  unfolding missed_def missedInfo_def
  using evaluateLanguage_notes [of rt req profile no_notes]
  by (simp add: evaluateRequirement_def missing_def assume_note_def no_notes_def Let_def
           split: RuleType.splits option.splits)

lemma evaluateAll_notes:
  "missingFields (snd (evaluateAll rt reqs profile ns))
     = missingFields ns @ concat (map (missed rt profile) reqs)
   \<and> missingInfo (snd (evaluateAll rt reqs profile ns))
     = missingInfo ns @ concat (map (missedInfo rt profile) reqs)
   \<and> assumptions_acc (snd (evaluateAll rt reqs profile ns))
     = assumptions_acc ns @ concat (map (noted rt profile) reqs)"
proof (induction reqs arbitrary: ns)
  case Nil
  then show ?case by simp
next
  case (Cons req reqs)
  obtain e ns' where e: "evaluateRequirement rt req profile ns = (e, ns')"
    by (cases "evaluateRequirement rt req profile ns")
  obtain rs ns'' where a: "evaluateAll rt reqs profile ns' = (rs, ns'')"
    by (cases "evaluateAll rt reqs profile ns'")
  from evaluateRequirement_notes [of rt req profile ns] e Cons.IH [of ns'] a show ?case
    by simp
qed

lemma missedInfo_empty:
  "(concat (map (missedInfo rt profile) reqs) = []) = (concat (map (missed rt profile) reqs) = [])"
proof -
  have "(missedInfo rt profile req = []) = (missed rt profile req = [])" for req
    using length_missedInfo [of rt profile req] by (metis length_0_conv)
  then show ?thesis
    by simp
qed

lemma determineStatus_unlikely:
  "(determineStatus rs mi = unlikely)
     = (\<exists>r\<in>set rs. \<not> passed r \<and> data_driven r \<and> majorFailure r)"
  by (auto simp: determineStatus_def Let_def filter_empty_conv)

lemma determineStatus_missing:
  "determineStatus rs mi \<noteq> unlikely \<Longrightarrow> mi \<noteq> [] \<Longrightarrow> determineStatus rs mi = needs_review"
  unfolding determineStatus_def Let_def by (auto split: if_splits)

lemma master_text: "includes_str (toLowerCase ''Master programs require a bachelor degree'') ''bachelor degree''"
  by code_simp

lemma phd_text: "includes_str (toLowerCase ''PhD programs require a master degree'') ''master degree''"
  by code_simp

lemma education_failure:
  assumes "\<not> fst (checkEducationLevel current desired)"
  shows "\<not> passed (educationReason current desired)
         \<and> data_driven (educationReason current desired)
         \<and> majorFailure (educationReason current desired)"
  using assms master_text phd_text
  by (cases desired) (auto simp: educationReason_def reason_def majorFailure_def split: if_splits)

lemma education_pass:
  assumes "fst (checkEducationLevel current desired)"
  shows "passed (educationReason current desired)"
  using assms
  by (cases desired) (auto simp: educationReason_def reason_def split: if_splits)

lemma num_lt_not_ge: "num_lt a b \<Longrightarrow> \<not> num_ge a b"
  by (cases a; cases b) auto

lemma gpa_outcome:
  assumes "rule_type req = gpa_minimum" "gpa profile = Some g"
  shows "outcome rt profile req = Some (gpaReason rt g (parseFloat rt (rule_value req)))"
  using assms by (simp add: outcome_def evaluateRequirement_def)

lemma gpaReason_sel [simp]:
  "reason_rule_type (gpaReason rt g t) = gpa_minimum"
  "passed (gpaReason rt g t) = num_ge g t"
  "data_driven (gpaReason rt g t)"
  by (simp_all add: gpaReason_def reason_def Let_def)

lemma indexOf_lower: "- 1 \<le> indexOf xs x"
  by (induction xs) (auto simp: Let_def)

lemma indexOf_found: "0 \<le> indexOf xs x \<Longrightarrow> x \<in> set xs"
  by (induction xs) (auto simp: Let_def split: if_splits)

lemma failing_level:
  assumes "\<not> indexOfValue levelOrder v \<le> indexOf levelOrder level"
  shows "\<exists>s\<in>set levelOrder. v = JStr s"
proof -
  from assms indexOf_lower [of levelOrder level] have p: "0 \<le> indexOfValue levelOrder v"
    by linarith
  then obtain s where s: "v = JStr s"
    by (cases v) auto
  with p have "s \<in> set levelOrder"
    by (auto intro: indexOf_found)
  with s show ?thesis
    by blast
qed

lemma turkish_texts:
  "list_all (\<lambda>s. \<not> majorFailure (reason language_proficiency False
       (''Turkish level does not meet the minimum requirement ('' @ s @ '')''))) levelOrder"
  by code_simp

lemma turkish_failure:
  assumes "\<not> passed (turkishReason v level)"
  shows "\<not> majorFailure (turkishReason v level)"
proof -
  from assms have f: "\<not> indexOfValue levelOrder v \<le> indexOf levelOrder level"
    by (simp add: turkishReason_def reason_def Let_def)
  then obtain s where s: "s \<in> set levelOrder" "v = JStr s"
    using failing_level by blast
  from f s have "turkishReason v level = reason language_proficiency False
       (''Turkish level does not meet the minimum requirement ('' @ s @ '')'')"
    by (simp add: turkishReason_def Let_def)
  with s turkish_texts show ?thesis
    by (simp add: list_all_iff)
qed

lemma english_failure: "\<not> majorFailure (englishReason False)"
  by code_simp

lemma portfolio_failure: "\<not> majorFailure (portfolioReason False)"
  by code_simp

lemma other_sel [simp]:
  "passed (englishReason ok) = ok" "passed (portfolioReason p) = p"
  "reason_rule_type (englishReason ok) = language_proficiency"
  "reason_rule_type (turkishReason v level) = language_proficiency"
  "reason_rule_type (portfolioReason p) = portfolio_required"
  "data_driven (englishReason ok)" "data_driven (turkishReason v level)"
  "data_driven (portfolioReason p)"
  by (simp_all add: englishReason_def portfolioReason_def turkishReason_def reason_def Let_def)

lemma language_failure:
  assumes "fst (evaluateLanguage rt req profile ns) = Some r" "\<not> passed r"
  shows "\<not> majorFailure r"
  using assms english_failure turkish_failure
  by (auto simp: evaluateLanguage_def unparsable_def
           split: option.splits json.splits if_splits)

lemma outcome_failure:
  assumes "outcome rt profile req = Some r" "\<not> passed r" "majorFailure r"
  shows "rule_type req = gpa_minimum \<and> reason_rule_type r = gpa_minimum"
  using assms portfolio_failure language_failure [of rt req profile no_notes r]
  by (auto simp: outcome_def evaluateRequirement_def
           split: RuleType.splits option.splits if_splits)

lemma outcome_data_driven:
  assumes "outcome rt profile req = Some r"
  shows "data_driven r"
  using assms
  by (auto simp: outcome_def evaluateRequirement_def evaluateLanguage_def unparsable_def
           split: RuleType.splits option.splits json.splits if_splits)

lemma snapshot_found:
  assumes "getProgramDetail db programId = Some programDetail"
  obtains out where
    "buildEligibilitySnapshot rt db \<lparr> el_profile = profile, el_program_id = programId \<rparr> = Inr out"
    "set (reasons out) =
       insert (educationReason (current_education_level profile) (degree_level programDetail))
         {r. \<exists>req\<in>set (detail_requirements programDetail). outcome rt profile req = Some r}"
    "status out = determineStatus (reasons out) (missing_info out)"
    "missing_fields out = concat (map (missed rt profile) (detail_requirements programDetail))"
    "missing_info out = concat (map (missedInfo rt profile) (detail_requirements programDetail))"
    "snapshot_assumptions out = concat (map (noted rt profile) (detail_requirements programDetail))"
proof -
  let ?reqs = "detail_requirements programDetail"
  let ?e0 = "\<lparr> missingInfo = [], missingFields = [], assumptions_acc = [] \<rparr>"
  obtain rs ns where a: "evaluateAll rt ?reqs profile ?e0 = (rs, ns)"
    by (cases "evaluateAll rt ?reqs profile ?e0")
  from evaluateAll_reasons [of rt ?reqs profile ?e0] a
  have r: "set rs = {r. \<exists>req\<in>set ?reqs. outcome rt profile req = Some r}"
    by simp
  from evaluateAll_notes [of rt ?reqs profile ?e0] a
  have n: "missingFields ns = concat (map (missed rt profile) ?reqs)"
    "missingInfo ns = concat (map (missedInfo rt profile) ?reqs)"
    "assumptions_acc ns = concat (map (noted rt profile) ?reqs)"
    by simp_all
  show thesis
    by (rule that [of "projr (buildEligibilitySnapshot rt db \<lparr> el_profile = profile, el_program_id = programId \<rparr>)"])
       (simp_all add: buildEligibilitySnapshot_def assms a r n Let_def)
qed

lemma missed_cases:
  "missed rt profile req =
     (case rule_type req of
        gpa_minimum \<Rightarrow> if gpa profile = None then [''gpa''] else []
      | portfolio_required \<Rightarrow> if has_portfolio profile = None then [''has_portfolio''] else []
      | work_experience \<Rightarrow>
          if work_experience_years profile = None then [''work_experience_years''] else []
      | language_proficiency \<Rightarrow>
          if languageOf rt req = Some ''english'' \<and> english_score profile = None
          then [''english_score'']
          else if languageOf rt req = Some ''turkish'' \<and> turkish_score profile = None
          then [''turkish_score'']
          else []
      | _ \<Rightarrow> [])"
proof (cases "rule_type req = language_proficiency")
  case True
  have "missingFields (snd (evaluateLanguage rt req profile no_notes)) =
          (if languageOf rt req = Some ''english'' \<and> english_score profile = None
           then [''english_score'']
           else if languageOf rt req = Some ''turkish'' \<and> turkish_score profile = None
           then [''turkish_score'']
           else [])"
    by (auto simp: evaluateLanguage_def languageOf_def unparsable_def missing_def assume_note_def
                   no_notes_def split: option.splits json.splits)
  with True show ?thesis
    by (simp add: missed_def evaluateRequirement_def)
next
  case False
  then show ?thesis
    by (cases "rule_type req")
       (auto simp: missed_def evaluateRequirement_def missing_def assume_note_def no_notes_def
             split: option.splits)
qed

lemma missed_field:
  "(f \<in> set (concat (map (missed rt profile) reqs))) = (\<exists>req\<in>set reqs. f \<in> set (missed rt profile req))"
  by auto

lemma outcome_kind:
  assumes "outcome rt profile req = Some r"
  shows "reason_rule_type r = rule_type req
         \<and> (rule_type req = gpa_minimum \<longrightarrow> gpa profile \<noteq> None)
         \<and> (rule_type req = portfolio_required \<longrightarrow> has_portfolio profile \<noteq> None)
         \<and> (rule_type req = language_proficiency
              \<longrightarrow> english_score profile \<noteq> None \<or> turkish_score profile \<noteq> None)
         \<and> rule_type req \<noteq> work_experience"
  using assms
  by (auto simp: outcome_def evaluateRequirement_def evaluateLanguage_def unparsable_def
           split: RuleType.splits option.splits json.splits if_splits)

lemma missed_gpa:
  "(''gpa'' \<in> set (missed rt profile req)) = (rule_type req = gpa_minimum \<and> gpa profile = None)"
  by (cases "rule_type req") (simp_all add: missed_cases)

lemma missed_portfolio:
  "(''has_portfolio'' \<in> set (missed rt profile req))
     = (rule_type req = portfolio_required \<and> has_portfolio profile = None)"
  by (cases "rule_type req") (simp_all add: missed_cases)

lemma missed_work:
  "(''work_experience_years'' \<in> set (missed rt profile req))
     = (rule_type req = work_experience \<and> work_experience_years profile = None)"
  by (cases "rule_type req") (simp_all add: missed_cases)

lemma missed_english:
  "(''english_score'' \<in> set (missed rt profile req))
     = (rule_type req = language_proficiency \<and> languageOf rt req = Some ''english''
        \<and> english_score profile = None)"
  by (cases "rule_type req") (simp_all add: missed_cases)

lemma missed_turkish:
  "(''turkish_score'' \<in> set (missed rt profile req))
     = (rule_type req = language_proficiency \<and> languageOf rt req = Some ''turkish''
        \<and> turkish_score profile = None)"
  by (cases "rule_type req") (auto simp: missed_cases)

lemma evaluateAll_list:
  "fst (evaluateAll rt reqs profile ns) = List.map_filter (outcome rt profile) reqs"
proof (induction reqs arbitrary: ns)
  case Nil
  then show ?case by (simp add: List.map_filter_simps)
next
  case (Cons req reqs)
  obtain e ns' where e: "evaluateRequirement rt req profile ns = (e, ns')"
    by (cases "evaluateRequirement rt req profile ns")
  then have o: "outcome rt profile req = e"
    using evaluateRequirement_fst [of rt req profile ns] by simp
  obtain rs ns'' where a: "evaluateAll rt reqs profile ns' = (rs, ns'')"
    by (cases "evaluateAll rt reqs profile ns'")
  from Cons.IH [of ns'] a have "rs = List.map_filter (outcome rt profile) reqs"
    by simp
  with e a o show ?case
    by (simp add: List.map_filter_simps split: option.splits)
qed

lemma snapshot_reasons:
  assumes "getProgramDetail db programId = Some programDetail"
      and "buildEligibilitySnapshot rt db \<lparr> el_profile = profile, el_program_id = programId \<rparr> = Inr out"
  shows "reasons out =
           educationReason (current_education_level profile) (degree_level programDetail)
           # List.map_filter (outcome rt profile) (detail_requirements programDetail)"
  using assms evaluateAll_list [of rt "detail_requirements programDetail" profile
          "\<lparr> missingInfo = [], missingFields = [], assumptions_acc = [] \<rparr>"]
  by (auto simp: buildEligibilitySnapshot_def Let_def split: prod.splits)

text \<open>A rule that records a missing field returns no reason.\<close>

lemma missed_no_outcome:
  assumes "missed rt profile req \<noteq> []"
  shows "outcome rt profile req = None"
  using assms
  by (auto simp: missed_def outcome_def evaluateRequirement_def evaluateLanguage_def unparsable_def
                 missing_def assume_note_def no_notes_def
           split: RuleType.splits option.splits json.splits if_splits)

text \<open>
  The evaluator never reads the desired level of the profile: the prerequisite is taken
  between the current level and the degree level of the program.
\<close>

lemma evaluateLanguage_desired:
  "evaluateLanguage rt req (profile\<lparr> desired_degree_level := d \<rparr>) ns
     = evaluateLanguage rt req profile ns"
  by (simp add: evaluateLanguage_def
           cong: option.case_cong json.case_cong if_cong)

lemma evaluateRequirement_desired:
  "evaluateRequirement rt req (profile\<lparr> desired_degree_level := d \<rparr>) ns
     = evaluateRequirement rt req profile ns"
  by (simp add: evaluateRequirement_def evaluateLanguage_desired
           cong: RuleType.case_cong)

lemma evaluateAll_desired:
  "evaluateAll rt reqs (profile\<lparr> desired_degree_level := d \<rparr>) ns = evaluateAll rt reqs profile ns"
  by (induction reqs arbitrary: ns) (simp_all add: evaluateRequirement_desired)

lemma desired_level_unread:
  "buildEligibilitySnapshot rt db
     \<lparr> el_profile = profile\<lparr> desired_degree_level := d \<rparr>, el_program_id = programId \<rparr>
   = buildEligibilitySnapshot rt db \<lparr> el_profile = profile, el_program_id = programId \<rparr>"
  by (cases "getProgramDetail db programId")
     (simp_all add: buildEligibilitySnapshot_def evaluateAll_desired)

section \<open>Hard disqualifiers\<close>

text \<open>
  C1, amended: for every profile and every found program, if the education-level
  prerequisite fails, taken between the current level of the profile and the degree level
  of the program (a master program with a current level outside bachelor, master and phd,
  or a phd program with a current level outside master and phd), or the declared GPA is
  strictly below the threshold of one of the program's \<open>gpa_minimum\<close> rules, the snapshot
  succeeds with status \<open>unlikely\<close>, whatever else is missing. The desired level of the
  profile plays no part: \<^verbatim>\<open>checkEducationLevel\<close> is called with the degree level of the
  program.
\<close>

theorem hard_disqualifier_unlikely:
  assumes found: "getProgramDetail db programId = Some programDetail"
      and hard:
        "(degree_level programDetail = deg_master
            \<and> current_education_level profile \<notin> {cur_bachelor, cur_master, cur_phd})
         \<or> (degree_level programDetail = deg_phd
            \<and> current_education_level profile \<notin> {cur_master, cur_phd})
         \<or> (\<exists>req\<in>set (detail_requirements programDetail). \<exists>g.
               rule_type req = gpa_minimum \<and> gpa profile = Some g
               \<and> num_lt g (parseFloat rt (rule_value req)))"
  shows "\<exists>out. buildEligibilitySnapshot rt db \<lparr> el_profile = profile, el_program_id = programId \<rparr>
                 = Inr out
               \<and> status out = unlikely"
proof -
  obtain out where
    run: "buildEligibilitySnapshot rt db \<lparr> el_profile = profile, el_program_id = programId \<rparr> = Inr out"
    and rs: "set (reasons out) =
       insert (educationReason (current_education_level profile) (degree_level programDetail))
         {r. \<exists>req\<in>set (detail_requirements programDetail). outcome rt profile req = Some r}"
    and st: "status out = determineStatus (reasons out) (missing_info out)"
    by (rule snapshot_found [OF found])
  have "\<exists>r\<in>set (reasons out). \<not> passed r \<and> data_driven r \<and> majorFailure r"
  proof -
    consider
      (edu) "\<not> fst (checkEducationLevel (current_education_level profile) (degree_level programDetail))"
    | (gpa) req g where "req \<in> set (detail_requirements programDetail)"
        "rule_type req = gpa_minimum" "gpa profile = Some g"
        "num_lt g (parseFloat rt (rule_value req))"
      using hard by auto
    then show ?thesis
    proof cases
      case edu
      from education_failure [OF edu] rs show ?thesis
        by blast
    next
      case gpa
      let ?r = "gpaReason rt g (parseFloat rt (rule_value req))"
      from gpa have "outcome rt profile req = Some ?r"
        by (simp add: gpa_outcome)
      with gpa(1) rs have "?r \<in> set (reasons out)"
        by auto
      moreover from gpa(4) have "\<not> passed ?r \<and> data_driven ?r \<and> majorFailure ?r"
        by (simp add: num_lt_not_ge majorFailure_def)
      ultimately show ?thesis
        by blast
    qed
  qed
  then have "status out = unlikely"
    unfolding st determineStatus_unlikely .
  with run show ?thesis
    by blast
qed

theorem hard_disqualifier_unlikely_witness:
  "gpa (student (Some (Fin 40)) None) = Some (Fin 40)
   \<and> english_score (student (Some (Fin 40)) None) = None
   \<and> map rule_value (detail_requirements (the (getProgramDetail eligibility_db ''prog-bachelor'')))
       = [''60'', english_payload]
   \<and> num_lt (Fin 40) (parseFloat example_runtime ''60'')
   \<and> (\<exists>out. buildEligibilitySnapshot example_runtime eligibility_db
               \<lparr> el_profile = student (Some (Fin 40)) None, el_program_id = ''prog-bachelor'' \<rparr>
               = Inr out
             \<and> status out = unlikely)"
proof -
  let ?d = "the (getProgramDetail eligibility_db ''prog-bachelor'')"
  let ?req = "hd (detail_requirements ?d)"
  have "getProgramDetail eligibility_db ''prog-bachelor'' \<noteq> None"
    by code_simp
  then have found: "getProgramDetail eligibility_db ''prog-bachelor'' = Some ?d"
    by simp
  have vals: "map rule_value (detail_requirements ?d) = [''60'', english_payload]"
    by code_simp
  have lt: "num_lt (Fin 40) (parseFloat example_runtime ''60'')"
    by code_simp
  have "?req \<in> set (detail_requirements ?d) \<and> rule_type ?req = gpa_minimum
        \<and> rule_value ?req = ''60''"
    by code_simp
  with lt have "\<exists>req\<in>set (detail_requirements ?d). \<exists>g.
               rule_type req = gpa_minimum \<and> gpa (student (Some (Fin 40)) None) = Some g
               \<and> num_lt g (parseFloat example_runtime (rule_value req))"
    by (intro bexI [of _ ?req] exI [of _ "Fin 40"]) (simp_all add: student_def)
  then have "\<exists>out. buildEligibilitySnapshot example_runtime eligibility_db
               \<lparr> el_profile = student (Some (Fin 40)) None, el_program_id = ''prog-bachelor'' \<rparr>
               = Inr out
             \<and> status out = unlikely"
    by (intro hard_disqualifier_unlikely [OF found]) simp
  with vals lt show ?thesis
    by (simp add: student_def)
qed

text \<open>
  C1 as stated, with the target read as the level the profile desires, fails: a
  high-school student who desires a master degree does not meet the prerequisite of their
  own two levels, yet against a bachelor program, with a GPA of 80 over a floor of 60 and
  an IELTS score of 6, the status is \<open>likely_eligible\<close>.
\<close>

theorem desired_level_counterexample:
  "current_education_level ((student (Some (Fin 80)) (Some ielts6))\<lparr> desired_degree_level := deg_master \<rparr>)
     = cur_high_school
   \<and> desired_degree_level ((student (Some (Fin 80)) (Some ielts6))\<lparr> desired_degree_level := deg_master \<rparr>)
     = deg_master
   \<and> fst (checkEducationLevel cur_high_school deg_master) = False
   \<and> degree_level (the (getProgramDetail eligibility_db ''prog-bachelor'')) = deg_bachelor
   \<and> isl (buildEligibilitySnapshot example_runtime eligibility_db
              \<lparr> el_profile = (student (Some (Fin 80)) (Some ielts6))\<lparr> desired_degree_level := deg_master \<rparr>,
                el_program_id = ''prog-bachelor'' \<rparr>) = False
   \<and> status (projr (buildEligibilitySnapshot example_runtime eligibility_db
              \<lparr> el_profile = (student (Some (Fin 80)) (Some ielts6))\<lparr> desired_degree_level := deg_master \<rparr>,
                el_program_id = ''prog-bachelor'' \<rparr>)) = likely_eligible"
  by code_simp

section \<open>Missing data\<close>

text \<open>
  C2, amended: for every profile, found program and runtime such that the education-level
  prerequisite passes, taken between the current level of the profile and the degree level
  of the program (the desired level of the profile is not read), and the declared GPA, if
  any, meets the threshold of every \<open>gpa_minimum\<close> rule, the snapshot succeeds and its
  status is never \<open>unlikely\<close>. A field the profile lacks is recorded as a named
  missing-data item exactly when a rule of the program asks for it: \<open>gpa\<close> for a
  \<open>gpa_minimum\<close> rule, \<open>has_portfolio\<close> for a \<open>portfolio_required\<close> rule,
  \<open>work_experience_years\<close> for a \<open>work_experience\<close> rule, and \<open>english_score\<close> or
  \<open>turkish_score\<close> for a \<open>language_proficiency\<close> rule whose payload decodes to an object
  of that language. Such a rule yields no reason: the reasons are the education reason
  followed by the reasons of the rules, in order, and a rule that records a field has
  none. As soon as one field is recorded the status is \<open>needs_review\<close>. A missing field
  that no rule asks for is not recorded and does not change the status.
\<close>

theorem missing_data_needs_review:
  assumes found: "getProgramDetail db programId = Some programDetail"
      and edu: "fst (checkEducationLevel (current_education_level profile)
                       (degree_level programDetail))"
      and met: "\<forall>req\<in>set (detail_requirements programDetail).
                  rule_type req = gpa_minimum
                  \<longrightarrow> (\<forall>g. gpa profile = Some g \<longrightarrow> num_ge g (parseFloat rt (rule_value req)))"
  shows "\<exists>out. buildEligibilitySnapshot rt db \<lparr> el_profile = profile, el_program_id = programId \<rparr>
                 = Inr out
          \<and> status out \<noteq> unlikely
          \<and> (missing_fields out \<noteq> [] \<longrightarrow> status out = needs_review)
          \<and> (''gpa'' \<in> set (missing_fields out))
              = (gpa profile = None
                 \<and> (\<exists>req\<in>set (detail_requirements programDetail). rule_type req = gpa_minimum))
          \<and> (''has_portfolio'' \<in> set (missing_fields out))
              = (has_portfolio profile = None
                 \<and> (\<exists>req\<in>set (detail_requirements programDetail).
                       rule_type req = portfolio_required))
          \<and> (''work_experience_years'' \<in> set (missing_fields out))
              = (work_experience_years profile = None
                 \<and> (\<exists>req\<in>set (detail_requirements programDetail).
                       rule_type req = work_experience))
          \<and> (''english_score'' \<in> set (missing_fields out))
              = (english_score profile = None
                 \<and> (\<exists>req\<in>set (detail_requirements programDetail).
                       rule_type req = language_proficiency
                       \<and> languageOf rt req = Some ''english''))
          \<and> (''turkish_score'' \<in> set (missing_fields out))
              = (turkish_score profile = None
                 \<and> (\<exists>req\<in>set (detail_requirements programDetail).
                       rule_type req = language_proficiency
                       \<and> languageOf rt req = Some ''turkish''))
          \<and> (gpa profile = None
               \<longrightarrow> (\<forall>r\<in>set (reasons out). reason_rule_type r \<noteq> gpa_minimum))
          \<and> (has_portfolio profile = None
               \<longrightarrow> (\<forall>r\<in>set (reasons out). reason_rule_type r \<noteq> portfolio_required))
          \<and> (english_score profile = None \<and> turkish_score profile = None
               \<longrightarrow> (\<forall>r\<in>set (reasons out). reason_rule_type r \<noteq> language_proficiency))
          \<and> (\<forall>r\<in>set (reasons out). reason_rule_type r \<noteq> work_experience)
          \<and> reasons out
              = educationReason (current_education_level profile) (degree_level programDetail)
                # List.map_filter (outcome rt profile) (detail_requirements programDetail)
          \<and> missing_fields out
              = concat (map (missed rt profile) (detail_requirements programDetail))
          \<and> (\<forall>req\<in>set (detail_requirements programDetail).
                missed rt profile req \<noteq> [] \<longrightarrow> outcome rt profile req = None)
          \<and> (\<forall>req\<in>set (detail_requirements programDetail).
                rule_type req = language_proficiency
                \<and> ((languageOf rt req = Some ''english'' \<and> english_score profile = None)
                   \<or> (languageOf rt req = Some ''turkish'' \<and> turkish_score profile = None))
                \<longrightarrow> outcome rt profile req = None)"
proof -
  let ?reqs = "detail_requirements programDetail"
  let ?edu = "educationReason (current_education_level profile) (degree_level programDetail)"
  obtain out where
    run: "buildEligibilitySnapshot rt db \<lparr> el_profile = profile, el_program_id = programId \<rparr> = Inr out"
    and rs: "set (reasons out) = insert ?edu {r. \<exists>req\<in>set ?reqs. outcome rt profile req = Some r}"
    and st: "status out = determineStatus (reasons out) (missing_info out)"
    and mf: "missing_fields out = concat (map (missed rt profile) ?reqs)"
    and mi: "missing_info out = concat (map (missedInfo rt profile) ?reqs)"
    by (rule snapshot_found [OF found])
  have no_major: "\<not> (\<not> passed r \<and> data_driven r \<and> majorFailure r)" if "r \<in> set (reasons out)" for r
  proof (cases "r = ?edu")
    case True
    with education_pass [OF edu] show ?thesis
      by simp
  next
    case False
    with that rs obtain req where req: "req \<in> set ?reqs" "outcome rt profile req = Some r"
      by auto
    show ?thesis
    proof
      assume f: "\<not> passed r \<and> data_driven r \<and> majorFailure r"
      with outcome_failure [OF req(2)] have k: "rule_type req = gpa_minimum"
        by simp
      with req(2) obtain g where g: "gpa profile = Some g"
        by (cases "gpa profile") (auto simp: outcome_def evaluateRequirement_def)
      with k req(2) have "r = gpaReason rt g (parseFloat rt (rule_value req))"
        by (simp add: gpa_outcome)
      moreover from met req(1) k g have "num_ge g (parseFloat rt (rule_value req))"
        by blast
      ultimately show False
        using f by simp
    qed
  qed
  then have s1: "status out \<noteq> unlikely"
    unfolding st determineStatus_unlikely by blast
  have s2: "missing_fields out \<noteq> [] \<longrightarrow> status out = needs_review"
    using s1 determineStatus_missing [of "reasons out" "missing_info out"] missedInfo_empty [of rt profile ?reqs]
    unfolding st mf mi by auto
  have edu_kind: "reason_rule_type ?edu = other"
    by (simp add: educationReason_def reason_def split: prod.splits)
  have kinds: "\<exists>req\<in>set ?reqs. outcome rt profile req = Some r"
    if "r \<in> set (reasons out)" "reason_rule_type r \<noteq> other" for r
    using that rs edu_kind by auto
  have r1: "gpa profile = None \<longrightarrow> (\<forall>r\<in>set (reasons out). reason_rule_type r \<noteq> gpa_minimum)"
  proof (intro impI ballI notI)
    fix r assume a: "gpa profile = None" "r \<in> set (reasons out)" "reason_rule_type r = gpa_minimum"
    then obtain req where "outcome rt profile req = Some r"
      using kinds [of r] by auto
    from outcome_kind [OF this] a show False
      by auto
  qed
  have r2: "has_portfolio profile = None
              \<longrightarrow> (\<forall>r\<in>set (reasons out). reason_rule_type r \<noteq> portfolio_required)"
  proof (intro impI ballI notI)
    fix r assume a: "has_portfolio profile = None" "r \<in> set (reasons out)"
      "reason_rule_type r = portfolio_required"
    then obtain req where "outcome rt profile req = Some r"
      using kinds [of r] by auto
    from outcome_kind [OF this] a show False
      by auto
  qed
  have r3: "english_score profile = None \<and> turkish_score profile = None
              \<longrightarrow> (\<forall>r\<in>set (reasons out). reason_rule_type r \<noteq> language_proficiency)"
  proof (intro impI ballI notI)
    fix r assume a: "english_score profile = None \<and> turkish_score profile = None"
      "r \<in> set (reasons out)" "reason_rule_type r = language_proficiency"
    then obtain req where "outcome rt profile req = Some r"
      using kinds [of r] by auto
    from outcome_kind [OF this] a show False
      by auto
  qed
  have r4: "\<forall>r\<in>set (reasons out). reason_rule_type r \<noteq> work_experience"
  proof (intro ballI notI)
    fix r assume a: "r \<in> set (reasons out)" "reason_rule_type r = work_experience"
    then obtain req where "outcome rt profile req = Some r"
      using kinds [of r] by auto
    from outcome_kind [OF this] a show False
      by auto
  qed
  have f1: "(''gpa'' \<in> set (missing_fields out))
              = (gpa profile = None \<and> (\<exists>req\<in>set ?reqs. rule_type req = gpa_minimum))"
    unfolding mf missed_field missed_gpa by blast
  have f2: "(''has_portfolio'' \<in> set (missing_fields out))
              = (has_portfolio profile = None \<and> (\<exists>req\<in>set ?reqs. rule_type req = portfolio_required))"
    unfolding mf missed_field missed_portfolio by blast
  have f3: "(''work_experience_years'' \<in> set (missing_fields out))
              = (work_experience_years profile = None
                 \<and> (\<exists>req\<in>set ?reqs. rule_type req = work_experience))"
    unfolding mf missed_field missed_work by blast
  have f4: "(''english_score'' \<in> set (missing_fields out))
              = (english_score profile = None
                 \<and> (\<exists>req\<in>set ?reqs. rule_type req = language_proficiency
                       \<and> languageOf rt req = Some ''english''))"
    unfolding mf missed_field missed_english by blast
  have f5: "(''turkish_score'' \<in> set (missing_fields out))
              = (turkish_score profile = None
                 \<and> (\<exists>req\<in>set ?reqs. rule_type req = language_proficiency
                       \<and> languageOf rt req = Some ''turkish''))"
    unfolding mf missed_field missed_turkish by blast
  have l1: "reasons out = ?edu # List.map_filter (outcome rt profile) ?reqs"
    by (rule snapshot_reasons [OF found run])
  have l2: "\<forall>req\<in>set ?reqs. missed rt profile req \<noteq> [] \<longrightarrow> outcome rt profile req = None"
    by (simp add: missed_no_outcome)
  have l3: "\<forall>req\<in>set ?reqs.
              rule_type req = language_proficiency
              \<and> ((languageOf rt req = Some ''english'' \<and> english_score profile = None)
                 \<or> (languageOf rt req = Some ''turkish'' \<and> turkish_score profile = None))
              \<longrightarrow> outcome rt profile req = None"
  proof (intro ballI impI)
    fix req
    assume "rule_type req = language_proficiency
              \<and> ((languageOf rt req = Some ''english'' \<and> english_score profile = None)
                 \<or> (languageOf rt req = Some ''turkish'' \<and> turkish_score profile = None))"
    then have "missed rt profile req \<noteq> []"
      by (auto simp: missed_cases)
    then show "outcome rt profile req = None"
      by (rule missed_no_outcome)
  qed
  from run s1 s2 f1 f2 f3 f4 f5 r1 r2 r3 r4 l1 mf l2 l3 show ?thesis
    by (intro exI [of _ out] conjI)
qed

theorem missing_data_needs_review_witness:
  "gpa (student (Some (Fin 80)) None) = Some (Fin 80)
   \<and> english_score (student (Some (Fin 80)) None) = None
   \<and> num_ge (Fin 80) (parseFloat example_runtime ''60'')
   \<and> (\<exists>out. buildEligibilitySnapshot example_runtime eligibility_db
               \<lparr> el_profile = student (Some (Fin 80)) None, el_program_id = ''prog-bachelor'' \<rparr>
               = Inr out
             \<and> status out = needs_review
             \<and> ''english_score'' \<in> set (missing_fields out)
             \<and> ''gpa'' \<notin> set (missing_fields out))"
proof -
  let ?p = "student (Some (Fin 80)) None"
  let ?d = "the (getProgramDetail eligibility_db ''prog-bachelor'')"
  have "getProgramDetail eligibility_db ''prog-bachelor'' \<noteq> None"
    by code_simp
  then have found: "getProgramDetail eligibility_db ''prog-bachelor'' = Some ?d"
    by simp
  have edu: "fst (checkEducationLevel (current_education_level ?p) (degree_level ?d))"
    by code_simp
  have g: "gpa ?p = Some (Fin 80)" and e: "english_score ?p = None"
    by (simp_all add: student_def)
  have "list_all (\<lambda>req. rule_type req = gpa_minimum
                          \<longrightarrow> num_ge (Fin 80) (parseFloat example_runtime (rule_value req)))
          (detail_requirements ?d)"
    by code_simp
  with g have met: "\<forall>req\<in>set (detail_requirements ?d).
                  rule_type req = gpa_minimum
                  \<longrightarrow> (\<forall>g. gpa ?p = Some g \<longrightarrow> num_ge g (parseFloat example_runtime (rule_value req)))"
    by (simp add: list_all_iff)
  have "list_ex (\<lambda>req. rule_type req = language_proficiency
                        \<and> languageOf example_runtime req = Some ''english'')
          (detail_requirements ?d)"
    by code_simp
  then have lang: "\<exists>req\<in>set (detail_requirements ?d).
                     rule_type req = language_proficiency
                     \<and> languageOf example_runtime req = Some ''english''"
    by (simp add: list_ex_iff)
  have ge: "num_ge (Fin 80) (parseFloat example_runtime ''60'')"
    by code_simp
  from missing_data_needs_review [OF found edu met] obtain out where
    run: "buildEligibilitySnapshot example_runtime eligibility_db
            \<lparr> el_profile = ?p, el_program_id = ''prog-bachelor'' \<rparr> = Inr out"
    and rev: "missing_fields out \<noteq> [] \<longrightarrow> status out = needs_review"
    and f1: "(''gpa'' \<in> set (missing_fields out))
              = (gpa ?p = None
                 \<and> (\<exists>req\<in>set (detail_requirements ?d). rule_type req = gpa_minimum))"
    and f4: "(''english_score'' \<in> set (missing_fields out))
              = (english_score ?p = None
                 \<and> (\<exists>req\<in>set (detail_requirements ?d).
                       rule_type req = language_proficiency
                       \<and> languageOf example_runtime req = Some ''english''))"
    by (elim exE conjE) (rule that, assumption+)
  from f4 e lang have m: "''english_score'' \<in> set (missing_fields out)"
    by blast
  then have "missing_fields out \<noteq> []"
    by auto
  with rev have "status out = needs_review"
    by blast
  moreover from f1 g have "''gpa'' \<notin> set (missing_fields out)"
    by simp
  ultimately show ?thesis
    using run m g e ge by blast
qed

text \<open>
  C2 as stated fails for a profile that lacks fields no rule asks for: with a GPA of 80 and
  an IELTS score of 6 against a GPA floor of 60 and an English requirement, the profile has
  no Turkish score, no portfolio flag and no work experience, nothing is recorded as
  missing, and the status is \<open>likely_eligible\<close>, not \<open>needs_review\<close>.
\<close>

theorem missing_without_rule_counterexample:
  "turkish_score (student (Some (Fin 80)) (Some ielts6)) = None
   \<and> has_portfolio (student (Some (Fin 80)) (Some ielts6)) = None
   \<and> work_experience_years (student (Some (Fin 80)) (Some ielts6)) = None
   \<and> \<not> isl (buildEligibilitySnapshot example_runtime eligibility_db
              \<lparr> el_profile = student (Some (Fin 80)) (Some ielts6),
                el_program_id = ''prog-bachelor'' \<rparr>)
   \<and> status (projr (buildEligibilitySnapshot example_runtime eligibility_db
                      \<lparr> el_profile = student (Some (Fin 80)) (Some ielts6),
                        el_program_id = ''prog-bachelor'' \<rparr>)) = likely_eligible
   \<and> missing_fields (projr (buildEligibilitySnapshot example_runtime eligibility_db
                      \<lparr> el_profile = student (Some (Fin 80)) (Some ielts6),
                        el_program_id = ''prog-bachelor'' \<rparr>)) = []"
  by code_simp

text \<open>
  The prerequisite of the amended claim is the one of the program: a high-school student
  who desires a bachelor degree and declares no GPA is \<open>unlikely\<close> for a master program,
  although the two levels of the profile agree with each other.
\<close>

lemma own_levels_pass_program_fails:
  "fst (checkEducationLevel (current_education_level (student None None))
          (desired_degree_level (student None None)))
   \<and> gpa (student None None) = None
   \<and> degree_level (the (getProgramDetail eligibility_db ''prog-master'')) = deg_master
   \<and> fst (checkEducationLevel (current_education_level (student None None)) deg_master) = False
   \<and> isl (buildEligibilitySnapshot example_runtime eligibility_db
              \<lparr> el_profile = student None None, el_program_id = ''prog-master'' \<rparr>) = False
   \<and> status (projr (buildEligibilitySnapshot example_runtime eligibility_db
                      \<lparr> el_profile = student None None, el_program_id = ''prog-master'' \<rparr>))
       = unlikely"
  by code_simp

section \<open>Rule payloads that cannot be read\<close>

text \<open>
  A language rule whose payload is not JSON is set aside with an assumption; a GPA rule
  whose payload is not a number is scored: its threshold is NaN, every comparison with NaN
  is false, and the failed \<open>gpa_minimum\<close> reason is a hard failure.
\<close>

lemma unparsable_language:
  assumes "rule_type req = language_proficiency" "JSON_parse rt (rule_value req) = None"
  shows "outcome rt profile req = None
         \<and> missed rt profile req = []
         \<and> noted rt profile req
             = [''Could not parse language requirement - defaulting to needs review'']"
  using assms
  by (simp add: outcome_def missed_def noted_def evaluateRequirement_def evaluateLanguage_def
                unparsable_def assume_note_def no_notes_def)

lemma unparsable_gpa:
  assumes "rule_type req = gpa_minimum" "parseFloat rt (rule_value req) = NaN" "gpa profile = Some g"
  shows "outcome rt profile req = Some (gpaReason rt g NaN)
         \<and> \<not> passed (gpaReason rt g NaN) \<and> majorFailure (gpaReason rt g NaN)
         \<and> noted rt profile req = []"
  using assms
  by (cases g)
     (simp_all add: outcome_def noted_def evaluateRequirement_def no_notes_def majorFailure_def)

text \<open>
  C3: a rule whose payload cannot be read per its kind records an assumption and
  contributes no failed reason. On the GPA rule \<open>N/A\<close> and the language rule
  \<open>not json\<close>, with a declared GPA of 80, the language rule does so, but the GPA rule
  yields a failed reason, records no assumption, and makes the status \<open>unlikely\<close>.
\<close>

theorem unparsable_gpa_rule:
  "parseFloat example_runtime ''N/A'' = NaN
   \<and> map rule_type (detail_requirements (the (getProgramDetail unparsable_db ''prog-bachelor'')))
       = [gpa_minimum, language_proficiency]
   \<and> map rule_value (detail_requirements (the (getProgramDetail unparsable_db ''prog-bachelor'')))
       = [''N/A'', ''not json'']
   \<and> \<not> isl (buildEligibilitySnapshot example_runtime unparsable_db
              \<lparr> el_profile = student (Some (Fin 80)) (Some ielts6),
                el_program_id = ''prog-bachelor'' \<rparr>)
   \<and> map reason_rule_type
        (reasons (projr (buildEligibilitySnapshot example_runtime unparsable_db
                           \<lparr> el_profile = student (Some (Fin 80)) (Some ielts6),
                             el_program_id = ''prog-bachelor'' \<rparr>)))
       = [other, gpa_minimum]
   \<and> map passed
        (reasons (projr (buildEligibilitySnapshot example_runtime unparsable_db
                           \<lparr> el_profile = student (Some (Fin 80)) (Some ielts6),
                             el_program_id = ''prog-bachelor'' \<rparr>)))
       = [True, False]
   \<and> status (projr (buildEligibilitySnapshot example_runtime unparsable_db
                      \<lparr> el_profile = student (Some (Fin 80)) (Some ielts6),
                        el_program_id = ''prog-bachelor'' \<rparr>)) = unlikely
   \<and> snapshot_assumptions
        (projr (buildEligibilitySnapshot example_runtime unparsable_db
                  \<lparr> el_profile = student (Some (Fin 80)) (Some ielts6),
                    el_program_id = ''prog-bachelor'' \<rparr>))
       = [''Could not parse language requirement - defaulting to needs review'']"
  by code_simp

section \<open>Document overrides\<close>

lemma set_joined_documents:
  "set (joined_documents db programId) =
     {(pdr, dt). pdr \<in> set (program_document_rules db) \<and> pdr_program_id pdr = programId
                 \<and> dt \<in> set (document_templates db) \<and> dt_doc_key dt = pdr_doc_key pdr}"
  by (auto simp: joined_documents_def)

lemma set_getDocuments:
  "set (getDocuments db programId) =
     (\<lambda>(pdr, dt). resolveDocument pdr dt) ` set (joined_documents db programId)"
  by (simp add: getDocuments_def sort_desc_key_def)

text \<open>
  C4: every resolved document of a program comes from one of its override rows and the
  template of the same key; an override that sets the translation (or notarization) flag,
  to true or to false, gives that value; an unset override gives the template default; and
  an absent required flag gives required.
\<close>

theorem document_override:
  assumes "doc \<in> set (getDocuments db programId)"
  shows "\<exists>pdr\<in>set (program_document_rules db). \<exists>dt\<in>set (document_templates db).
           pdr_program_id pdr = programId \<and> dt_doc_key dt = pdr_doc_key pdr
           \<and> doc_key doc = dt_doc_key dt
           \<and> (\<forall>b. pdr_translation_required pdr = Some (flag b) \<longrightarrow> translation_required doc = b)
           \<and> (pdr_translation_required pdr = None
                \<longrightarrow> translation_required doc = (dt_translation_required_default dt = 1))
           \<and> (\<forall>b. pdr_notarization_required pdr = Some (flag b) \<longrightarrow> notarization_required doc = b)
           \<and> (pdr_notarization_required pdr = None
                \<longrightarrow> notarization_required doc = (dt_notarization_required_default dt = 1))
           \<and> (pdr_required_flag pdr = None \<longrightarrow> doc_required doc)"
proof -
  from assms obtain pdr dt where j: "(pdr, dt) \<in> set (joined_documents db programId)"
    and d: "doc = resolveDocument pdr dt"
    unfolding set_getDocuments by auto
  from j have "pdr \<in> set (program_document_rules db)" "dt \<in> set (document_templates db)"
    "pdr_program_id pdr = programId" "dt_doc_key dt = pdr_doc_key pdr"
    unfolding set_joined_documents by auto
  moreover have "doc_key doc = dt_doc_key dt"
    "\<forall>b. pdr_translation_required pdr = Some (flag b) \<longrightarrow> translation_required doc = b"
    "pdr_translation_required pdr = None
       \<longrightarrow> translation_required doc = (dt_translation_required_default dt = 1)"
    "\<forall>b. pdr_notarization_required pdr = Some (flag b) \<longrightarrow> notarization_required doc = b"
    "pdr_notarization_required pdr = None
       \<longrightarrow> notarization_required doc = (dt_notarization_required_default dt = 1)"
    "pdr_required_flag pdr = None \<longrightarrow> doc_required doc"
    unfolding d by (simp_all add: resolveDocument_def COALESCE_def flag_def)
  ultimately show ?thesis
    by (intro bexI [of _ pdr] bexI [of _ dt] conjI)
qed

theorem document_override_witness:
  "passport_doc \<in> set (getDocuments override_db ''prog-bachelor'')
   \<and> (\<exists>pdr\<in>set (program_document_rules override_db). \<exists>dt\<in>set (document_templates override_db).
         pdr_program_id pdr = ''prog-bachelor'' \<and> dt_doc_key dt = pdr_doc_key pdr
         \<and> doc_key passport_doc = dt_doc_key dt
         \<and> (\<forall>b. pdr_translation_required pdr = Some (flag b)
                \<longrightarrow> translation_required passport_doc = b)
         \<and> (pdr_translation_required pdr = None
              \<longrightarrow> translation_required passport_doc = (dt_translation_required_default dt = 1))
         \<and> (\<forall>b. pdr_notarization_required pdr = Some (flag b)
                \<longrightarrow> notarization_required passport_doc = b)
         \<and> (pdr_notarization_required pdr = None
              \<longrightarrow> notarization_required passport_doc = (dt_notarization_required_default dt = 1))
         \<and> (pdr_required_flag pdr = None \<longrightarrow> doc_required passport_doc))
   \<and> map pdr_translation_required
         (filter (\<lambda>pdr. pdr_doc_key pdr = ''passport_copy'') (program_document_rules override_db))
       = [Some (flag True)]
   \<and> map pdr_required_flag
         (filter (\<lambda>pdr. pdr_doc_key pdr = ''passport_copy'') (program_document_rules override_db))
       = [None]
   \<and> map dt_translation_required_default
         (filter (\<lambda>dt. dt_doc_key dt = ''passport_copy'') (document_templates override_db))
       = [flag False]
   \<and> translation_required passport_doc \<and> doc_required passport_doc"
proof -
  have c: "map pdr_translation_required
         (filter (\<lambda>pdr. pdr_doc_key pdr = ''passport_copy'') (program_document_rules override_db))
       = [Some (flag True)]
   \<and> map pdr_required_flag
         (filter (\<lambda>pdr. pdr_doc_key pdr = ''passport_copy'') (program_document_rules override_db))
       = [None]
   \<and> map dt_translation_required_default
         (filter (\<lambda>dt. dt_doc_key dt = ''passport_copy'') (document_templates override_db))
       = [flag False]
   \<and> translation_required passport_doc \<and> doc_required passport_doc"
    by code_simp
  have b: "passport_doc \<in> set (getDocuments override_db ''prog-bachelor'')"
    by code_simp
  show ?thesis
    using c by (intro conjI) (rule b, rule document_override [OF b], simp_all)
qed

lemma document_resolved:
  assumes "pdr \<in> set (program_document_rules db)" "pdr_program_id pdr = programId"
      and "dt \<in> set (document_templates db)" "dt_doc_key dt = pdr_doc_key pdr"
  shows "resolveDocument pdr dt \<in> set (getDocuments db programId)"
  using assms unfolding set_getDocuments set_joined_documents by auto

section \<open>The critical path\<close>



lemma length_sort_desc_key [simp]: "length (sort_desc_key f xs) = length xs"
  by (simp add: sort_desc_key_def)


lemma plusDays_NotANumber [simp]: "(plusDays d n = NotANumber) = (d = NotANumber)"
  by (cases d) simp_all




lemma taskOf_sel [simp]:
  "task_doc_key (taskOf i) = item_doc_key i"
  "task_estimated_days (taskOf i) = totalDays i"
  by (simp_all add: taskOf_def)






text \<open>
  It fails as well on a required document keyed \<open>constructor\<close> with no stored duration:
  the duration is the inherited function, not a number, and no comparison with it holds.
\<close>

lemma critical_path_empty_inherited_key:
  "\<not> isl (buildTimeline plain_runtime 0 inherited_key_db fixture_input)
   \<and> map item_required
        (items (projr (buildDocumentChecklist inherited_key_db (tl_profile fixture_input)
                         (tl_program_id fixture_input)))) = [True]
   \<and> map totalDays
        (items (projr (buildDocumentChecklist inherited_key_db (tl_profile fixture_input)
                         (tl_program_id fixture_input)))) = [NotANumber]
   \<and> critical_path_items (projr (buildTimeline plain_runtime 0 inherited_key_db fixture_input)) = []"
  by code_simp

section \<open>An unknown program\<close>

lemma buildTimeline_unknown:
  assumes "getProgramDetail db (tl_program_id input) = None"
  shows "buildTimeline rt today db input = Inl CHECKLIST_ERROR"
  using assms by (simp add: buildTimeline_def buildDocumentChecklist_def)

lemma buildTimeline_never_not_found:
  "buildTimeline rt today db input \<noteq> Inl PROGRAM_NOT_FOUND"
  by (auto simp: buildTimeline_def buildDocumentChecklist_def Let_def
           split: sum.splits option.splits prod.splits)

text \<open>
  C6: for a program id that is not in the catalog the document planner reports
  \<^verbatim>\<open>PROGRAM_NOT_FOUND\<close>, and \<^verbatim>\<open>buildTimeline\<close> fails; but it reports
  \<^verbatim>\<open>CHECKLIST_ERROR\<close>, since it tests the planner's failure before its own lookup, whose
  \<^verbatim>\<open>PROGRAM_NOT_FOUND\<close> branch is never taken.
\<close>

theorem buildTimeline_unknown_program:
  "getProgramDetail fixture_db ''non-existent'' = None
   \<and> buildDocumentChecklist fixture_db (tl_profile fixture_input) ''non-existent''
       = Inl PROGRAM_NOT_FOUND
   \<and> buildTimeline plain_runtime 0 fixture_db (fixture_input\<lparr> tl_program_id := ''non-existent'' \<rparr>)
       = Inl CHECKLIST_ERROR"
  by code_simp

section \<open>The target intake\<close>

lemma buildTimeline_intake:
  assumes "buildTimeline rt today db input = Inr out"
      and "getProgramDetail db (tl_program_id input) = Some programDetail"
  shows "target_intake out = fst (resolveIntake rt (intake_target input) (intakes programDetail))"
    and "(''Intake dates not available - using generic 8-week timeline'' \<in> set (assumptions out))
           = (intakes programDetail = [])"
    and "(''Timeline is based on an 8-week preparation period'' \<in> set (assumptions out))
           = (\<not> snd (resolveIntake rt (intake_target input) (intakes programDetail)))"
  using assms
  by (auto simp: buildTimeline_def Let_def split: sum.splits option.splits prod.splits if_splits)

text \<open>
  C7, amended: for every \<^verbatim>\<open>buildTimeline\<close> call on an existing program, whatever
  lower-casing the runtime applies to the target and the labels, (1) a supplied
  target that fuzzy-matches a declared label gives the first such label, with no intake
  assumption; (2) no target (absent or empty) gives the first declared label, with no intake
  assumption; (3) a supplied target that matches no declared label is kept as it is, and
  the eight-week assumption is recorded; (4) a program without intakes gives the supplied
  target, or \<open>September\<close> when there is none, and both intake assumptions are recorded.
  The scenario of the claim, intakes September and February and no target, is the witness.
\<close>

theorem intake_resolution:
  assumes run: "buildTimeline rt today db input = Inr out"
      and detail: "getProgramDetail db (tl_program_id input) = Some programDetail"
  shows "(\<forall>t m. intake_target input = Some t \<and> t \<noteq> [] \<and> intakes programDetail \<noteq> []
               \<and> find (fuzzy rt t) (intakes programDetail) = Some m \<and> m \<noteq> []
            \<longrightarrow> target_intake out = m
                \<and> ''Intake dates not available - using generic 8-week timeline'' \<notin> set (assumptions out)
                \<and> ''Timeline is based on an 8-week preparation period'' \<notin> set (assumptions out))
         \<and> (\<forall>first rest. intake_target input \<in> {None, Some []} \<and> intakes programDetail = first # rest
            \<longrightarrow> target_intake out = first
                \<and> ''Intake dates not available - using generic 8-week timeline'' \<notin> set (assumptions out)
                \<and> ''Timeline is based on an 8-week preparation period'' \<notin> set (assumptions out))
         \<and> (\<forall>t. intake_target input = Some t \<and> t \<noteq> [] \<and> intakes programDetail \<noteq> []
               \<and> find (fuzzy rt t) (intakes programDetail) \<in> {None, Some []}
            \<longrightarrow> target_intake out = t
                \<and> ''Intake dates not available - using generic 8-week timeline'' \<notin> set (assumptions out)
                \<and> ''Timeline is based on an 8-week preparation period'' \<in> set (assumptions out))
         \<and> (intakes programDetail = []
            \<longrightarrow> target_intake out
                  = (case intake_target input of
                       None \<Rightarrow> ''September''
                     | Some t \<Rightarrow> if t = [] then ''September'' else t)
                \<and> ''Intake dates not available - using generic 8-week timeline'' \<in> set (assumptions out)
                \<and> ''Timeline is based on an 8-week preparation period'' \<in> set (assumptions out))"
  unfolding buildTimeline_intake [OF run detail]
  by (auto simp: resolveIntake_def Let_def split: list.splits option.splits)

theorem intake_resolution_witness:
  "intake_target fixture_input = None
   \<and> intakes (the (getProgramDetail fixture_db (tl_program_id fixture_input))) = [''September'', ''February'']
   \<and> target_intake (projr (buildTimeline plain_runtime 0 fixture_db fixture_input)) = ''September''
   \<and> ''Intake dates not available - using generic 8-week timeline''
        \<notin> set (assumptions (projr (buildTimeline plain_runtime 0 fixture_db fixture_input)))
   \<and> ''Timeline is based on an 8-week preparation period''
        \<notin> set (assumptions (projr (buildTimeline plain_runtime 0 fixture_db fixture_input)))"
proof -
  let ?out = "projr (buildTimeline plain_runtime 0 fixture_db fixture_input)"
  let ?d = "the (getProgramDetail fixture_db (tl_program_id fixture_input))"
  have "\<not> isl (buildTimeline plain_runtime 0 fixture_db fixture_input)"
    by code_simp
  then have run: "buildTimeline plain_runtime 0 fixture_db fixture_input = Inr ?out"
    by (cases "buildTimeline plain_runtime 0 fixture_db fixture_input") simp_all
  have "getProgramDetail fixture_db (tl_program_id fixture_input) \<noteq> None"
    by code_simp
  then have detail: "getProgramDetail fixture_db (tl_program_id fixture_input) = Some ?d"
    by simp
  have t: "intake_target fixture_input = None"
    by (simp add: fixture_input_def)
  have i: "intakes ?d = [''September'', ''February'']"
    by code_simp
  from intake_resolution [OF run detail] t i show ?thesis
    by simp
qed

text \<open>
  C7 as stated fails when a target is supplied and matches nothing: \<open>Fall 2024\<close> against
  September and February stays \<open>Fall 2024\<close> instead of falling back to September, and an
  assumption is recorded although the program declares its intakes.
\<close>

theorem intake_unmatched_counterexample:
  "\<not> isl (buildTimeline plain_runtime 0 fixture_db (fixture_input\<lparr> intake_target := Some ''Fall 2024'' \<rparr>))
   \<and> intakes (the (getProgramDetail fixture_db ''prog-bachelor'')) = [''September'', ''February'']
   \<and> \<not> fuzzy plain_runtime ''Fall 2024'' ''September'' \<and> \<not> fuzzy plain_runtime ''Fall 2024'' ''February''
   \<and> target_intake (projr (buildTimeline plain_runtime 0 fixture_db (fixture_input\<lparr> intake_target := Some ''Fall 2024'' \<rparr>)))
       = ''Fall 2024''
   \<and> assumptions (projr (buildTimeline plain_runtime 0 fixture_db (fixture_input\<lparr> intake_target := Some ''Fall 2024'' \<rparr>)))
       = [''Timeline is based on an 8-week preparation period'']"
  by code_simp

section \<open>Keyword expansion\<close>

lemmas unit_defs = u_def blank_unit_def lower_unit_def kept_def word_unit_def
lemmas normalize_defs = normalizeKeyword_def trim_def unit_defs

lemma synonym_groups_eval:
  "synonym_groups =
     [[u ''computer engineering'', u ''ce'', u ''ceng'', u ''comp eng'', u ''bilgisayar mhendislii'', [1607, 1606, 1583, 1587, 1577, 32, 1575, 1604, 1581, 1575, 1587, 1608, 1576], [1607, 1606, 1583, 1587, 1577, 32, 1581, 1575, 1587, 1608, 1576]],
      [u ''ce'', u ''computer engineering'', u ''ceng'', u ''comp eng'', u ''bilgisayar mhendislii'', [1607, 1606, 1583, 1587, 1577, 32, 1575, 1604, 1581, 1575, 1587, 1608, 1576]],
      [u ''ceng'', u ''computer engineering'', u ''ce'', u ''comp eng'', u ''bilgisayar mhendislii'', [1607, 1606, 1583, 1587, 1577, 32, 1575, 1604, 1581, 1575, 1587, 1608, 1576]],
      [u ''computer science'', u ''cs'', u ''comp sci'', u ''bilgisayar bilimleri'', [1593, 1604, 1608, 1605, 32, 1575, 1604, 1581, 1575, 1587, 1608, 1576], [1593, 1604, 1608, 1605, 32, 1581, 1575, 1587, 1608, 1576]],
      [u ''cs'', u ''computer science'', u ''comp sci'', u ''bilgisayar bilimleri'', [1593, 1604, 1608, 1605, 32, 1575, 1604, 1581, 1575, 1587, 1608, 1576]],
      [u ''software engineering'', u ''se'', u ''soft eng'', u ''yazlm mhendislii'', [1607, 1606, 1583, 1587, 1577, 32, 1575, 1604, 1576, 1585, 1605, 1580, 1610, 1575, 1578]],
      [u ''se'', u ''software engineering'', u ''soft eng'', u ''yazlm mhendislii'', [1607, 1606, 1583, 1587, 1577, 32, 1575, 1604, 1576, 1585, 1605, 1580, 1610, 1575, 1578]],
      [u ''electrical engineering'', u ''ee'', u ''elec eng'', u ''elektrik mhendislii'', [1575, 1604, 1607, 1606, 1583, 1587, 1577, 32, 1575, 1604, 1603, 1607, 1585, 1576, 1575, 1574, 1610, 1577], [1607, 1606, 1583, 1587, 1577, 32, 1603, 1607, 1585, 1576, 1575, 1574, 1610, 1577]],
      [u ''ee'', u ''electrical engineering'', u ''elec eng'', u ''elektrik mhendislii'', [1575, 1604, 1607, 1606, 1583, 1587, 1577, 32, 1575, 1604, 1603, 1607, 1585, 1576, 1575, 1574, 1610, 1577]],
      [u ''electronics'', u ''electronic engineering'', u ''elektronik'', [1573, 1604, 1603, 1578, 1585, 1608, 1606, 1610, 1575, 1578]],
      [u ''business administration'', u ''ba'', u ''business'', u ''iletme'', [1573, 1583, 1575, 1585, 1577, 32, 1575, 1604, 1571, 1593, 1605, 1575, 1604], [1575, 1583, 1575, 1585, 1577, 32, 1575, 1593, 1605, 1575, 1604]],
      [u ''mba'', u ''master of business administration'', u ''business administration'', [1605, 1575, 1580, 1587, 1578, 1610, 1585, 32, 1573, 1583, 1575, 1585, 1577, 32, 1575, 1604, 1571, 1593, 1605, 1575, 1604]],
      [u ''medicine'', u ''md'', u ''tp'', [1575, 1604, 1591, 1576], [1591, 1576]],
      [u ''medical'', u ''medicine'', u ''tp'', [1591, 1576]],
      [u ''architecture'', u ''arch'', u ''mimarlk'', [1575, 1604, 1607, 1606, 1583, 1587, 1577, 32, 1575, 1604, 1605, 1593, 1605, 1575, 1585, 1610, 1577], [1593, 1605, 1575, 1585, 1577]],
      [u ''law'', u ''llb'', u ''hukuk'', [1575, 1604, 1602, 1575, 1606, 1608, 1606], [1602, 1575, 1606, 1608, 1606]],
      [u ''psychology'', u ''psych'', u ''psikoloji'', [1593, 1604, 1605, 32, 1575, 1604, 1606, 1601, 1587]],
      [u ''nursing'', u ''hemirelik'', [1575, 1604, 1578, 1605, 1585, 1610, 1590], [1578, 1605, 1585, 1610, 1590]],
      [u ''engineering'', u ''eng'', u ''mhendislik'', [1607, 1606, 1583, 1587, 1577]]]"
  by (simp add: synonym_groups_def KEYWORD_SYNONYMS_def normalize_defs)

lemma groups_not_inherited: "\<forall>g\<in>set synonym_groups. \<forall>t\<in>set g. \<not> inherited t"
  unfolding synonym_groups_eval by (simp add: inherited_def u_def)

lemma trim_idem: "trim (trim s) = trim s"
proof -
  define zs where "zs = dropWhile blank_unit s"
  define ws where "ws = rev (dropWhile blank_unit (rev zs))"
  have t: "trim s = ws"
    by (simp add: trim_def zs_def ws_def)
  have z: "zs = [] \<or> \<not> blank_unit (hd zs)"
    using hd_dropWhile [of blank_unit s] by (auto simp: zs_def)
  have "rev zs = takeWhile blank_unit (rev zs) @ dropWhile blank_unit (rev zs)"
    by simp
  then have "rev (rev zs) = ws @ rev (takeWhile blank_unit (rev zs))"
    unfolding ws_def by (metis rev_append)
  then have "zs = ws @ rev (takeWhile blank_unit (rev zs))"
    by simp
  then have "ws \<noteq> [] \<Longrightarrow> hd ws = hd zs"
    by (metis hd_append2)
  moreover have "zs = [] \<Longrightarrow> ws = []"
    by (simp add: ws_def)
  ultimately have "ws = [] \<or> \<not> blank_unit (hd ws)"
    using z by (cases "ws = []") auto
  then have d: "dropWhile blank_unit ws = ws"
    by (simp add: dropWhile_eq_self_iff)
  have "dropWhile blank_unit (rev ws) = rev ws"
    by (simp add: ws_def)
  with d have "trim ws = ws"
    by (simp add: trim_def)
  with t show ?thesis
    by simp
qed

lemma trim_subset: "set (trim s) \<subseteq> set s"
  by (auto simp: trim_def dest!: set_dropWhileD)

lemma lowered_kept:
  assumes "c \<in> set (lower_unit d)" "kept c"
  shows "lower_unit c = [c]"
  using assms by (auto simp: lower_unit_def kept_def word_unit_def blank_unit_def split: if_splits)

lemma settled_fixed:
  assumes "\<forall>c\<in>set xs. kept c \<and> lower_unit c = [c]"
  shows "filter kept (concat (map lower_unit xs)) = xs"
  using assms by (induction xs) auto

lemma normalizeKeyword_idem: "normalizeKeyword (normalizeKeyword k) = normalizeKeyword k"
proof -
  let ?f = "filter kept (concat (map lower_unit k))"
  have "\<forall>c\<in>set ?f. kept c \<and> lower_unit c = [c]"
    by (auto intro: lowered_kept)
  with trim_subset [of ?f] have "\<forall>c\<in>set (trim ?f). kept c \<and> lower_unit c = [c]"
    by blast
  then have "filter kept (concat (map lower_unit (trim ?f))) = trim ?f"
    by (rule settled_fixed)
  then show ?thesis
    by (simp add: normalizeKeyword_def trim_idem)
qed

lemma set_add [simp]: "set (add x xs) = insert x (set xs)"
  by (auto simp: add_def)

lemma set_addAll [simp]: "set (addAll ys xs) = set ys \<union> set xs"
proof -
  have "set (foldl (\<lambda>acc y. add y acc) xs ys) = set ys \<union> set xs" for xs
    by (induction ys arbitrary: xs) auto
  then show ?thesis
    by (simp add: addAll_def)
qed

lemma group_related:
  assumes "g \<in> set synonym_groups" "a \<in> set g" "b \<in> set g"
  shows "(a, b) \<in> synonym_rel"
  using assms by (auto simp: synonym_rel_def)

lemma entry_group:
  assumes "(mainTerm, syns) \<in> set KEYWORD_SYNONYMS"
  shows "map normalizeKeyword (mainTerm # syns) \<in> set synonym_groups"
  using assms unfolding synonym_groups_def by force

lemma containing_set:
  "set acc \<subseteq> set (containing n acc)
   \<and> set (containing n acc) \<subseteq> set acc \<union> insert n (synonym_rel `` {n})
   \<and> (\<forall>y\<in>set (containing n acc). y \<in> set acc \<or> (\<exists>g\<in>set synonym_groups. y \<in> set g))"
proof -
  have "set acc \<subseteq> set (foldl (\<lambda>acc (mainTerm, syns).
              if list_ex (\<lambda>s. normalizeKeyword s = n) syns
              then addAll (map normalizeKeyword syns) (add (normalizeKeyword mainTerm) acc)
              else acc) acc es)
        \<and> set (foldl (\<lambda>acc (mainTerm, syns).
              if list_ex (\<lambda>s. normalizeKeyword s = n) syns
              then addAll (map normalizeKeyword syns) (add (normalizeKeyword mainTerm) acc)
              else acc) acc es) \<subseteq> set acc \<union> insert n (synonym_rel `` {n})
        \<and> (\<forall>y\<in>set (foldl (\<lambda>acc (mainTerm, syns).
              if list_ex (\<lambda>s. normalizeKeyword s = n) syns
              then addAll (map normalizeKeyword syns) (add (normalizeKeyword mainTerm) acc)
              else acc) acc es). y \<in> set acc \<or> (\<exists>g\<in>set synonym_groups. y \<in> set g))"
    if "set es \<subseteq> set KEYWORD_SYNONYMS" for es
    using that
  proof (induction es arbitrary: acc)
    case Nil
    then show ?case by auto
  next
    case (Cons e es)
    obtain mainTerm syns where e: "e = (mainTerm, syns)"
      by (cases e)
    let ?g = "map normalizeKeyword (mainTerm # syns)"
    from Cons.prems e have "(mainTerm, syns) \<in> set KEYWORD_SYNONYMS"
      by simp
    then have g: "?g \<in> set synonym_groups"
      by (rule entry_group)
    let ?acc' = "if list_ex (\<lambda>s. normalizeKeyword s = n) syns
              then addAll (map normalizeKeyword syns) (add (normalizeKeyword mainTerm) acc)
              else acc"
    have a1: "set acc \<subseteq> set ?acc'"
      by auto
    have a2: "set ?acc' \<subseteq> set acc \<union> insert n (synonym_rel `` {n})"
    proof (cases "list_ex (\<lambda>s. normalizeKeyword s = n) syns")
      case True
      then have "n \<in> set ?g"
        by (auto simp: list_ex_iff)
      with g have "set ?g \<subseteq> synonym_rel `` {n}"
        by (auto intro: group_related)
      with True show ?thesis
        by auto
    next
      case False
      then show ?thesis by auto
    qed
    have a3: "\<forall>y\<in>set ?acc'. y \<in> set acc \<or> (\<exists>g\<in>set synonym_groups. y \<in> set g)"
    proof (cases "list_ex (\<lambda>s. normalizeKeyword s = n) syns")
      case True
      have "\<forall>y\<in>set ?g. \<exists>g\<in>set synonym_groups. y \<in> set g"
        using g by blast
      with True show ?thesis
        by auto
    next
      case False
      then show ?thesis by auto
    qed
    from Cons.prems have "set es \<subseteq> set KEYWORD_SYNONYMS"
      by simp
    from Cons.IH [OF this, of ?acc'] a1 a2 a3 e show ?case
      by (simp only: foldl_Cons prod.case) blast
  qed
  from this [OF subset_refl] show ?thesis
    unfolding containing_def .
qed

lemma expandKeyword_set:
  assumes "expandKeyword k (e, a) = Inr (e', a')"
  shows "\<not> inherited (normalizeKeyword k)
         \<and> set e \<subseteq> set e' \<and> normalizeKeyword k \<in> set e'
         \<and> set e' \<subseteq> set e \<union> insert (normalizeKeyword k) (synonym_rel `` {normalizeKeyword k})
         \<and> (\<forall>y\<in>set e'. y \<in> set e \<or> y = normalizeKeyword k
                              \<or> (\<exists>g\<in>set synonym_groups. y \<in> set g))"
proof -
  let ?n = "normalizeKeyword k"
  from assms have ni: "\<not> inherited ?n"
    by (auto simp: expandKeyword_def Let_def split: if_splits)
  show ?thesis
  proof (cases "map_of KEYWORD_SYNONYMS ?n")
    case None
    with assms ni have e': "e' = containing ?n (add ?n e)"
      by (simp add: expandKeyword_def Let_def)
    from containing_set [of "add ?n e" ?n] ni show ?thesis
      unfolding e' by auto
  next
    case (Some syns)
    with assms ni have e': "e' = containing ?n (addAll (map normalizeKeyword syns) (add ?n e))"
      by (simp add: expandKeyword_def Let_def)
    from Some have "(?n, syns) \<in> set KEYWORD_SYNONYMS"
      by (rule map_of_SomeD)
    then have g: "map normalizeKeyword (?n # syns) \<in> set synonym_groups"
      by (rule entry_group)
    have n: "?n \<in> set (map normalizeKeyword (?n # syns))"
      by (simp add: normalizeKeyword_idem)
    have "set (map normalizeKeyword syns) \<subseteq> synonym_rel `` {?n}"
      using group_related [OF g n] by auto
    moreover have "\<forall>y\<in>set (map normalizeKeyword syns). \<exists>g\<in>set synonym_groups. y \<in> set g"
      using g by (intro ballI bexI [of _ "map normalizeKeyword (?n # syns)"]) auto
    ultimately show ?thesis
      using containing_set [of "addAll (map normalizeKeyword syns) (add ?n e)" ?n] ni
      unfolding e' by (simp only: set_addAll set_add) blast
  qed
qed

lemma group_terms_settled:
  assumes "g \<in> set synonym_groups" "y \<in> set g"
  shows "normalizeKeyword y = y \<and> \<not> inherited y"
proof -
  from assms(1) obtain mainTerm syns where "g = map normalizeKeyword (mainTerm # syns)"
    unfolding synonym_groups_def by auto
  with assms(2) obtain t where "y = normalizeKeyword t"
    by auto
  then have "normalizeKeyword y = y"
    by (simp add: normalizeKeyword_idem)
  with groups_not_inherited assms show ?thesis
    by blast
qed

lemma expandLoop_set:
  assumes "expandLoop ks (e, a) = Inr (e', a')"
  shows "(\<forall>k\<in>set ks. \<not> inherited (normalizeKeyword k))
         \<and> set e \<subseteq> set e' \<and> normalizeKeyword ` set ks \<subseteq> set e'
         \<and> set e' \<subseteq> set e \<union> (normalizeKeyword ` set ks
                                    \<union> synonym_rel `` (normalizeKeyword ` set ks))
         \<and> (\<forall>y\<in>set e'. y \<in> set e \<or> (normalizeKeyword y = y \<and> \<not> inherited y))"
  using assms
proof (induction ks arbitrary: e a)
  case Nil
  then show ?case by auto
next
  case (Cons k ks)
  from Cons.prems obtain e1 a1 where
    one: "expandKeyword k (e, a) = Inr (e1, a1)" and rest: "expandLoop ks (e1, a1) = Inr (e', a')"
    by (cases "expandKeyword k (e, a)") auto
  let ?n = "normalizeKeyword k"
  note s1 = expandKeyword_set [OF one]
  note s2 = Cons.IH [OF rest]
  note k_ok = s1 [THEN conjunct1]
  note e_e1 = s1 [THEN conjunct2, THEN conjunct1]
  note n_e1 = s1 [THEN conjunct2, THEN conjunct2, THEN conjunct1]
  note e1_up = s1 [THEN conjunct2, THEN conjunct2, THEN conjunct2, THEN conjunct1]
  note e1_src = s1 [THEN conjunct2, THEN conjunct2, THEN conjunct2, THEN conjunct2]
  note ks_ok = s2 [THEN conjunct1]
  note e1_e' = s2 [THEN conjunct2, THEN conjunct1]
  note ks_e' = s2 [THEN conjunct2, THEN conjunct2, THEN conjunct1]
  note e'_up = s2 [THEN conjunct2, THEN conjunct2, THEN conjunct2, THEN conjunct1]
  note e'_src = s2 [THEN conjunct2, THEN conjunct2, THEN conjunct2, THEN conjunct2]
  have settled: "normalizeKeyword y = y \<and> \<not> inherited y" if "y \<in> set e1" "y \<notin> set e" for y
  proof -
    from e1_src that have "y = ?n \<or> (\<exists>g\<in>set synonym_groups. y \<in> set g)"
      by blast
    then show ?thesis
    proof
      assume "y = ?n"
      with k_ok show ?thesis
        by (simp add: normalizeKeyword_idem)
    next
      assume "\<exists>g\<in>set synonym_groups. y \<in> set g"
      then show ?thesis
        using group_terms_settled by blast
    qed
  qed
  have c1: "\<forall>k'\<in>set (k # ks). \<not> inherited (normalizeKeyword k')"
    using k_ok ks_ok by simp
  have c2: "set e \<subseteq> set e'"
    using e_e1 e1_e' by (rule subset_trans)
  have "?n \<in> set e'"
    using n_e1 e1_e' by blast
  with ks_e' have c3: "normalizeKeyword ` set (k # ks) \<subseteq> set e'"
    by simp
  have c4: "set e' \<subseteq> set e \<union> (normalizeKeyword ` set (k # ks)
                                     \<union> synonym_rel `` (normalizeKeyword ` set (k # ks)))"
  proof
    fix x assume "x \<in> set e'"
    with e'_up consider (a) "x \<in> set e1" | (b) "x \<in> normalizeKeyword ` set ks"
      | (c) "x \<in> synonym_rel `` (normalizeKeyword ` set ks)"
      by blast
    then show "x \<in> set e \<union> (normalizeKeyword ` set (k # ks)
                                 \<union> synonym_rel `` (normalizeKeyword ` set (k # ks)))"
    proof cases
      case a
      with e1_up consider "x \<in> set e" | "x = ?n" | "(?n, x) \<in> synonym_rel"
        by blast
      then show ?thesis
        by cases (simp, simp, force)
    next
      case b
      then show ?thesis by simp
    next
      case c
      then show ?thesis by force
    qed
  qed
  have c5: "\<forall>y\<in>set e'. y \<in> set e \<or> (normalizeKeyword y = y \<and> \<not> inherited y)"
    using e'_src settled by blast
  from c1 c2 c3 c4 c5 show ?case
    by (intro conjI)
qed

lemma expandLoop_runs:
  assumes "\<forall>k\<in>set ks. \<not> inherited (normalizeKeyword k)"
  shows "\<exists>acc'. expandLoop ks acc = Inr acc'"
  using assms
proof (induction ks arbitrary: acc)
  case Nil
  then show ?case by simp
next
  case (Cons k ks)
  then have "\<exists>acc1. expandKeyword k acc = Inr acc1"
    by (auto simp: expandKeyword_def Let_def split: option.splits)
  with Cons show ?case
    by auto
qed

lemma expandKeywords_Inr:
  "(expandKeywords ks = Inr r)
     = (\<exists>a. expandLoop ks ([], []) = Inr (expanded r, a) \<and> synonymsApplied r = a)"
  by (cases "expandLoop ks ([], [])"; cases r) (auto simp: expandKeywords_def)

lemma own_synonyms:
  assumes "expandKeyword k (e, a) = Inr (e', a')"
      and "map_of KEYWORD_SYNONYMS (normalizeKeyword k) = Some syns"
  shows "normalizeKeyword ` set syns \<subseteq> set e'"
proof -
  let ?n = "normalizeKeyword k"
  from assms have "e' = containing ?n (addAll (map normalizeKeyword syns) (add ?n e))"
    by (auto simp: expandKeyword_def Let_def split: if_splits)
  with containing_set [of "addAll (map normalizeKeyword syns) (add ?n e)" ?n] show ?thesis
    by auto
qed

lemma two_steps:
  assumes "A \<subseteq> N \<union> R `` N" "B \<subseteq> A \<union> R `` A"
  shows "B \<subseteq> R\<^sup>* `` N"
proof
  fix x assume "x \<in> B"
  with assms(2) obtain y where y: "y \<in> A" "y = x \<or> (y, x) \<in> R"
    by blast
  with assms(1) obtain n where n: "n \<in> N" "n = y \<or> (n, y) \<in> R"
    by blast
  from y(2) have "(y, x) \<in> R\<^sup>*"
    by (rule disjE) simp_all
  moreover from n(2) have "(n, y) \<in> R\<^sup>*"
    by (rule disjE) simp_all
  ultimately have "(n, x) \<in> R\<^sup>*"
    by (rule rtrancl_trans [rotated])
  with n(1) show "x \<in> R\<^sup>* `` N"
    by (rule ImageI [rotated])
qed

text \<open>
  C8: keyword expansion is idempotent up to the transitive closure of the synonym groups.
  For every keyword list whose expansion returns, expanding the expanded set returns as
  well, keeps every term, and holds only terms reachable from the normalised keywords
  through the synonym groups. Expanding \<open>cs\<close> gives a set that includes
  \<open>computer science\<close>. (A keyword that normalises to \<open>constructor\<close> or \<open>__proto__\<close>
  makes the expansion throw, and there is no expanded set.)
\<close>

theorem expansion_within_closure:
  "(\<forall>ks r. expandKeywords ks = Inr r
      \<longrightarrow> (\<exists>r'. expandKeywords (expanded r) = Inr r'
                \<and> set (expanded r) \<subseteq> set (expanded r')
                \<and> set (expanded r') \<subseteq> synonym_closure (normalizeKeyword ` set ks)))
   \<and> (\<exists>r. expandKeywords [u ''cs''] = Inr r \<and> u ''computer science'' \<in> set (expanded r))"
proof (intro conjI allI impI)
  fix ks r
  assume "expandKeywords ks = Inr r"
  then obtain a where l1: "expandLoop ks ([], []) = Inr (expanded r, a)"
    unfolding expandKeywords_Inr by blast
  note f = expandLoop_set [OF l1]
  from f have settled: "\<forall>y\<in>set (expanded r). normalizeKeyword y = y \<and> \<not> inherited y"
    by simp
  then have "\<forall>y\<in>set (expanded r). \<not> inherited (normalizeKeyword y)"
    by simp
  from expandLoop_runs [OF this, of "([], [])"] obtain e2 a2 where
    l2: "expandLoop (expanded r) ([], []) = Inr (e2, a2)"
    by auto
  note s = expandLoop_set [OF l2]
  let ?r' = "\<lparr> expanded = e2, synonymsApplied = a2 \<rparr>"
  have run: "expandKeywords (expanded r) = Inr ?r'"
    using l2 by (simp add: expandKeywords_def)
  have same: "normalizeKeyword ` set (expanded r) = set (expanded r)"
    using settled by force
  have grow: "set (expanded r) \<subseteq> set (expanded ?r')"
    using s same by simp
  have "set (expanded r)
          \<subseteq> normalizeKeyword ` set ks \<union> synonym_rel `` (normalizeKeyword ` set ks)"
    using f by simp
  moreover have "set e2 \<subseteq> set (expanded r) \<union> synonym_rel `` set (expanded r)"
    using s same by simp
  ultimately have "set e2 \<subseteq> synonym_rel\<^sup>* `` (normalizeKeyword ` set ks)"
    by (rule two_steps)
  then have within: "set (expanded ?r') \<subseteq> synonym_closure (normalizeKeyword ` set ks)"
    by (simp add: synonym_closure_def)
  from run grow within
  show "\<exists>r'. expandKeywords (expanded r) = Inr r'
              \<and> set (expanded r) \<subseteq> set (expanded r')
              \<and> set (expanded r') \<subseteq> synonym_closure (normalizeKeyword ` set ks)"
    by blast
next
  have n: "normalizeKeyword (u ''cs'') = u ''cs''"
    by (simp add: normalize_defs)
  then have "\<forall>k\<in>set [u ''cs'']. \<not> inherited (normalizeKeyword k)"
    by (simp add: inherited_def u_def)
  from expandLoop_runs [OF this, of "([], [])"] obtain e a where
    l: "expandLoop [u ''cs''] ([], []) = Inr (e, a)"
    by auto
  then have one: "expandKeyword (u ''cs'') ([], []) = Inr (e, a)"
    by (cases "expandKeyword (u ''cs'') ([], [])") auto
  have "\<exists>syns. map_of KEYWORD_SYNONYMS (u ''cs'') = Some syns \<and> u ''computer science'' \<in> set syns"
    by (simp add: KEYWORD_SYNONYMS_def u_def)
  then obtain syns where
    syns: "map_of KEYWORD_SYNONYMS (normalizeKeyword (u ''cs'')) = Some syns"
      "u ''computer science'' \<in> set syns"
    unfolding n by blast
  have "normalizeKeyword (u ''computer science'') = u ''computer science''"
    by (simp add: normalize_defs)
  with syns(2) have "u ''computer science'' \<in> normalizeKeyword ` set syns"
    by force
  with own_synonyms [OF one syns(1)] have "u ''computer science'' \<in> set e"
    by blast
  with l show "\<exists>r. expandKeywords [u ''cs''] = Inr r \<and> u ''computer science'' \<in> set (expanded r)"
    by (simp add: expandKeywords_def)
qed

theorem expansion_within_closure_witness:
  "\<exists>r r'. expandKeywords [u ''MBA''] = Inr r
       \<and> u ''mba'' \<in> set (expanded r)
       \<and> expandKeywords (expanded r) = Inr r'
       \<and> set (expanded r) \<subseteq> set (expanded r')
       \<and> set (expanded r') \<subseteq> synonym_closure (normalizeKeyword ` set [u ''MBA''])"
proof -
  have n: "normalizeKeyword (u ''MBA'') = u ''mba''"
    by (simp add: normalize_defs)
  then have "\<forall>k\<in>set [u ''MBA'']. \<not> inherited (normalizeKeyword k)"
    by (simp add: inherited_def u_def)
  from expandLoop_runs [OF this, of "([], [])"] obtain e a where
    l: "expandLoop [u ''MBA''] ([], []) = Inr (e, a)"
    by auto
  let ?r = "\<lparr> expanded = e, synonymsApplied = a \<rparr>"
  from l have run: "expandKeywords [u ''MBA''] = Inr ?r"
    by (simp add: expandKeywords_def)
  from expandLoop_set [OF l] n have m: "u ''mba'' \<in> set (expanded ?r)"
    by simp
  from expansion_within_closure [THEN conjunct1, rule_format, OF run] obtain r' where
    "expandKeywords (expanded ?r) = Inr r'"
    "set (expanded ?r) \<subseteq> set (expanded r')"
    "set (expanded r') \<subseteq> synonym_closure (normalizeKeyword ` set [u ''MBA''])"
    by (elim exE conjE)
  with run m show ?thesis
    by (intro exI [of _ ?r] exI [of _ r'] conjI)
qed

section \<open>Program and university requirements\<close>

text \<open>
  C9, amended: the requirement set of a program is every rule scoped to the program together
  with every rule scoped to its university (a rule with no program), whatever their kinds;
  nothing is dropped, so a university rule stands beside a program rule of the same kind.
\<close>

theorem requirements_both_tiers:
  "set (getRequirements db programId) =
     mapRequirement ` {r \<in> set (requirements db). r_program_id r = Some programId}
     \<union> mapRequirement `
         {r \<in> set (requirements db).
            r_program_id r = None \<and> university_of db programId = Some (r_university_id r)}
   \<and> length (getRequirements db programId) =
       length (filter (\<lambda>r. r_program_id r = Some programId) (requirements db))
       + length (filter (\<lambda>r. r_program_id r = None
                                \<and> university_of db programId = Some (r_university_id r))
                        (requirements db))"
proof -
  have "length (filter (requirement_selected db programId) rs) =
          length (filter (\<lambda>r. r_program_id r = Some programId) rs)
          + length (filter (\<lambda>r. r_program_id r = None
                                   \<and> university_of db programId = Some (r_university_id r)) rs)"
    for rs
    by (induction rs) (auto simp: requirement_selected_def)
  then show ?thesis
    by (auto simp: getRequirements_def sort_desc_key_def requirement_selected_def)
qed

text \<open>
  C9 as stated fails: the university's GPA floor is returned although the program has a GPA
  floor of its own.
\<close>

theorem requirements_no_precedence_counterexample:
  "map req_id (getRequirements two_tier_db ''prog-master'') = [''req-program'', ''req-university'']
   \<and> map rule_type (getRequirements two_tier_db ''prog-master'') = [gpa_minimum, gpa_minimum]
   \<and> map rule_value (getRequirements two_tier_db ''prog-master'') = [''70'', ''60'']"
  by code_simp

end
